(* ===== verification/Prelude.thy ===== *)
theory Prelude
  imports Main "HOL-Library.Word" "HOL-Library.Sublist"
begin

text \<open>
  Shared vocabulary of the development.  The names of the model's value types
  (paths, generations, module ids, diagnostics, client and request handles,
  milliseconds), the collection \<open>plugin_defs\<close> into which every component
  puts the unfolding rules of its operations, and the generic lemmas on lists,
  suffixes and association lists that the component proofs share.
\<close>

type_synonym path = string
type_synonym generation = nat
type_synonym module_id = string
type_synonym diagnostic = string
type_synonym client_id = nat
type_synonym request_id = nat
type_synonym time_ms = nat

named_theorems plugin_defs "unfolding rules of the operations of the plugin model"

subsection \<open>Strictly increasing sequences\<close>

lemma sorted_wrt_less_snoc [simp]:
  "sorted_wrt (<) (xs @ [y :: nat]) \<longleftrightarrow> sorted_wrt (<) xs \<and> (\<forall>x\<in>set xs. x < y)"
  by (auto simp: sorted_wrt_append)

lemma sorted_wrt_less_distinct:
  "sorted_wrt (<) (xs :: nat list) \<Longrightarrow> distinct xs"
  by (induction xs) auto

subsection \<open>Suffixes of a growing sequence\<close>

lemma suffix_snoc_both [intro]:
  "suffix xs ys \<Longrightarrow> suffix (xs @ [y]) (ys @ [y])"
  by (auto simp: suffix_def)

lemma suffix_map_snoc [intro]:
  "suffix xs (map f ys) \<Longrightarrow> suffix (xs @ [f y]) (map f (ys @ [y]))"
  by (auto simp: suffix_def)

lemma suffix_sorted_wrt:
  "suffix xs ys \<Longrightarrow> sorted_wrt P ys \<Longrightarrow> sorted_wrt P xs"
  by (auto simp: suffix_def sorted_wrt_append)

subsection \<open>Cutting a string at a separator\<close>

lemma takeWhile_upto:
  "c \<notin> set xs \<Longrightarrow> takeWhile (\<lambda>ch. ch \<noteq> c) (xs @ c # ys) = xs"
  by (induction xs) auto

lemma takeWhile_no_sep:
  "c \<notin> set xs \<Longrightarrow> takeWhile (\<lambda>ch. ch \<noteq> c) xs = xs"
  by (induction xs) auto

subsection \<open>Filtering a list into two parts\<close>

lemma filter_partition_length:
  "length (filter P xs) + length (filter (\<lambda>x. \<not> P x) xs) = length xs"
  by (induction xs) auto

end
