(* ===== verification/ArtifactStore.thy ===== *)
theory ArtifactStore
  imports Prelude
begin

text \<open>
  The Artifact Store (spec section 4.4): the in-memory output of the latest
  successful build, keyed by normalised output path.  A store value is one
  generation's artifact set together with that generation's id; \<open>swap\<close>
  replaces the whole value at once, and \<open>get\<close> is a pure lookup.  Because a
  store is replaced as one value, a reader that looks up several keys in one
  store always sees a single generation (lemma \<open>get_swap\<close>).
\<close>

record artifact =
  content :: string
  content_hash :: string
  content_type :: string

record store =
  store_gen :: generation
  store_files :: "(path \<times> artifact) list"

definition empty_store :: store where
  "empty_store = \<lparr>store_gen = 0, store_files = []\<rparr>"

definition swap :: "generation \<Rightarrow> (path \<times> artifact) list \<Rightarrow> store \<Rightarrow> store" where
  "swap g arts st = \<lparr>store_gen = g, store_files = arts\<rparr>"

definition get :: "store \<Rightarrow> path \<Rightarrow> artifact option" where
  "get st k = map_of (store_files st) k"

text \<open>A bundle as the example's compiler emits it, used by the witnesses.\<close>

definition demo_bundle :: artifact where
  "demo_bundle =
     \<lparr>content = ''console.log(1)'', content_hash = ''a1'', content_type = ''application/javascript''\<rparr>"

declare demo_bundle_def [plugin_defs]

declare empty_store_def [plugin_defs] swap_def [plugin_defs] get_def [plugin_defs]

text \<open>After a swap every key reads from the new artifact set and none from the old.\<close>

lemma get_swap: "get (swap g arts st) = map_of arts"
  by (simp add: get_def swap_def fun_eq_iff)

lemma store_gen_swap [simp]: "store_gen (swap g arts st) = g"
  by (simp add: swap_def)

lemma get_empty_store [simp]: "get empty_store k = None"
  by (simp add: get_def empty_store_def)

lemma get_Some_in_files: "get st k = Some a \<Longrightarrow> (k, a) \<in> set (store_files st)"
  by (simp add: get_def map_of_SomeD)

end
