(* ===== verification/WebpackConfig.thy ===== *)
theory WebpackConfig
  imports Prelude
begin

text \<open>
  The compiler configuration of the example server
  (\<open>src/examples/webpack/server/server.ts\<close>, the object passed to \<open>webpack(...)\<close>):
  devtool, the two entry points, the mode, the one module rule (\<open>ts-loader\<close>
  for \<open>/\.tsx?$/u\<close> outside \<open>/node_modules/u\<close>), the output, the
  hot-module-replacement plugin and the resolved extensions.  Node's
  \<open>path.resolve\<close> is modelled on absolute POSIX paths, with \<open>__dirname\<close> a
  parameter, so the configuration is a function of the directory the server
  runs from.  The meaning webpack gives to the options is modelled where the
  rest of the development needs it: which loaders a module gets, how a request
  is resolved against the extensions, which output keys a build emits, and the
  part of webpack's configuration validation that decides whether watch mode
  can start.
\<close>

subsection \<open>Strings and POSIX paths\<close>

definition ends_with :: "string \<Rightarrow> string \<Rightarrow> bool" where
  "ends_with suf s = (length suf \<le> length s \<and> drop (length s - length suf) s = suf)"

fun contains_str :: "string \<Rightarrow> string \<Rightarrow> bool" where
  "contains_str pat [] = (pat = [])"
| "contains_str pat (c # cs) = (take (length pat) (c # cs) = pat \<or> contains_str pat cs)"

text \<open>Splitting at \<open>/\<close>; \<open>cur\<close> is the reversed segment read so far.\<close>

fun split_slash_acc :: "string \<Rightarrow> string \<Rightarrow> string list" where
  "split_slash_acc cur [] = [rev cur]"
| "split_slash_acc cur (ch # chs) =
     (if ch = CHR ''/'' then rev cur # split_slash_acc [] chs else split_slash_acc (ch # cur) chs)"

definition split_slash :: "string \<Rightarrow> string list" where
  "split_slash s = split_slash_acc [] s"

fun norm_segments :: "string list \<Rightarrow> string list \<Rightarrow> string list" where
  "norm_segments acc [] = rev acc"
| "norm_segments acc (sg # sgs) =
     (if sg = [] \<or> sg = ''.'' then norm_segments acc sgs
      else if sg = ''..'' then norm_segments (tl acc) sgs
      else norm_segments (sg # acc) sgs)"

definition is_absolute :: "string \<Rightarrow> bool" where
  "is_absolute p = (p \<noteq> [] \<and> hd p = CHR ''/'')"

definition join_slash :: "string list \<Rightarrow> string" where
  "join_slash sgs = concat (map (\<lambda>sg. ''/'' @ sg) sgs)"

text \<open>
  \<open>path.resolve(dir, p)\<close>: an absolute \<open>p\<close> replaces \<open>dir\<close>; otherwise \<open>p\<close>
  is appended to \<open>dir\<close>; the result is normalised (\<open>.\<close>, \<open>..\<close> and empty
  segments removed), and the root is \<open>/\<close>.
\<close>

definition path_resolve :: "string \<Rightarrow> string \<Rightarrow> string" where
  "path_resolve dir p =
     (let full = (if is_absolute p then p else dir @ ''/'' @ p);
          sgs = norm_segments [] (split_slash full)
      in if sgs = [] then ''/'' else join_slash sgs)"

subsection \<open>The configuration object\<close>

record loader_use =
  loader :: string
  transpile_only :: bool

record module_rule =
  rule_exclude :: "string \<Rightarrow> bool"
  rule_test :: "string \<Rightarrow> bool"
  rule_use :: "loader_use list"

record output_config =
  filename :: string
  out_path :: string
  public_path :: string

record webpack_config =
  devtool :: string
  entry :: "string list"
  mode :: string
  rules :: "module_rule list"
  output_cfg :: output_config
  plugins :: "string list"
  extensions :: "string list"

text \<open>The regular expressions \<open>/node_modules/u\<close> and \<open>/\.tsx?$/u\<close>.\<close>

definition node_modules_exclude :: "string \<Rightarrow> bool" where
  "node_modules_exclude p = contains_str ''node_modules'' p"

definition tsx_test :: "string \<Rightarrow> bool" where
  "tsx_test p = (ends_with ''.ts'' p \<or> ends_with ''.tsx'' p)"

definition ts_loader_use :: loader_use where
  "ts_loader_use = \<lparr>loader = ''ts-loader'', transpile_only = True\<rparr>"

definition ts_rule :: module_rule where
  "ts_rule = \<lparr>rule_exclude = node_modules_exclude, rule_test = tsx_test, rule_use = [ts_loader_use]\<rparr>"

definition example_entry :: "string \<Rightarrow> string list" where
  "example_entry dir =
     [path_resolve dir ''../../../dist/client.js'', path_resolve dir ''../app/main.ts'']"

definition example_output :: "string \<Rightarrow> output_config" where
  "example_output dir =
     \<lparr>filename = ''main.js'', out_path = path_resolve dir ''/dist'', public_path = ''/''\<rparr>"

definition example_config :: "string \<Rightarrow> webpack_config" where
  "example_config dir =
     \<lparr>devtool = ''source-map'', entry = example_entry dir, mode = ''development'',
      rules = [ts_rule], output_cfg = example_output dir,
      plugins = [''HotModuleReplacementPlugin''], extensions = [''.js'', ''.ts'']\<rparr>"

subsection \<open>What webpack makes of the options\<close>

text \<open>A rule applies to a module when its test matches and its exclude does not.\<close>

definition rule_applies :: "module_rule \<Rightarrow> string \<Rightarrow> bool" where
  "rule_applies r p = (rule_test r p \<and> \<not> rule_exclude r p)"

definition loaders_for :: "webpack_config \<Rightarrow> string \<Rightarrow> loader_use list" where
  "loaders_for cfg p = concat (map rule_use (filter (\<lambda>r. rule_applies r p) (rules cfg)))"

text \<open>
  Resolving a request: the request itself when that file exists, otherwise the
  first extension of \<open>resolve.extensions\<close>, in order, that names a file.
\<close>

definition resolve_module :: "webpack_config \<Rightarrow> (string \<Rightarrow> bool) \<Rightarrow> string \<Rightarrow> string option" where
  "resolve_module cfg exists req =
     (if exists req then Some req
      else map_option (\<lambda>e. req @ e) (find (\<lambda>e. exists (req @ e)) (extensions cfg)))"

text \<open>
  The keys under which a build's assets are served: the bundle at
  \<open>publicPath + filename\<close> and, with \<open>devtool: 'source-map'\<close>, its map beside it.
\<close>

definition emitted_keys :: "webpack_config \<Rightarrow> path list" where
  "emitted_keys cfg =
     (let main = public_path (output_cfg cfg) @ filename (output_cfg cfg)
      in if devtool cfg = ''source-map'' then [main, main @ ''.map''] else [main])"

text \<open>
  The part of webpack's configuration validation that decides whether a
  compiler can be created and put into watch mode: at least one entry, an
  absolute output path, and a known mode.
\<close>

definition compiler_valid :: "webpack_config \<Rightarrow> bool" where
  "compiler_valid cfg =
     (entry cfg \<noteq> [] \<and> is_absolute (out_path (output_cfg cfg)) \<and>
      mode cfg \<in> {''development'', ''production'', ''none''})"

subsection \<open>Paths under \<open>path.resolve\<close>\<close>

lemma split_slash_acc_append:
  "split_slash_acc cur (xs @ CHR ''/'' # ys) = split_slash_acc cur xs @ split_slash_acc [] ys"
  by (induction xs arbitrary: cur) auto

lemma norm_segments_snoc:
  "x \<noteq> [] \<Longrightarrow> x \<noteq> ''.'' \<Longrightarrow> x \<noteq> ''..'' \<Longrightarrow>
   norm_segments acc (xs @ [x]) = norm_segments acc xs @ [x]"
  by (induction acc xs rule: norm_segments.induct) auto

lemma join_slash_snoc: "join_slash (xs @ [x]) = join_slash xs @ ''/'' @ x"
  by (simp add: join_slash_def)

text \<open>
  Resolving a relative path whose last segment is a file name ends in that
  file name, wherever the base directory is.
\<close>

lemma path_resolve_last_segment:
  assumes "\<not> is_absolute p" and "split_slash p = ps @ [x]"
    and "x \<noteq> []" and "x \<noteq> ''.''" and "x \<noteq> ''..''"
  shows "\<exists>pre. path_resolve dir p = pre @ ''/'' @ x"
proof -
  have "split_slash (dir @ ''/'' @ p) = split_slash dir @ ps @ [x]"
    using assms(2) by (simp add: split_slash_def split_slash_acc_append)
  then have "norm_segments [] (split_slash (dir @ ''/'' @ p)) =
             norm_segments [] (split_slash dir @ ps) @ [x]"
    using assms(3-5) norm_segments_snoc [of x "[]" "split_slash dir @ ps"] by simp
  with assms(1) show ?thesis
    by (auto simp: path_resolve_def join_slash_snoc)
qed


lemma ends_with_iff: "ends_with suf s \<longleftrightarrow> (\<exists>pre. s = pre @ suf)"
proof
  assume "ends_with suf s"
  then have "s = take (length s - length suf) s @ suf"
    by (metis append_take_drop_id ends_with_def)
  then show "\<exists>pre. s = pre @ suf" by blast
qed (auto simp: ends_with_def)

lemma ends_with_js_not_ts:
  assumes "ends_with ''.js'' p"
  shows "\<not> tsx_test p"
proof -
  from assms obtain pre where p: "p = pre @ ''.js''" by (auto simp: ends_with_iff)
  have ts: "pre @ ''.js'' \<noteq> q @ ''.ts''" for q
  proof
    assume "pre @ ''.js'' = q @ ''.ts''"
    then have "rev (pre @ ''.js'') = rev (q @ ''.ts'')" by (rule arg_cong)
    then show False by simp
  qed
  have tsx: "pre @ ''.js'' \<noteq> q @ ''.tsx''" for q
  proof
    assume "pre @ ''.js'' = q @ ''.tsx''"
    then have "rev (pre @ ''.js'') = rev (q @ ''.tsx'')" by (rule arg_cong)
    then show False by simp
  qed
  from ts tsx show ?thesis by (auto simp: tsx_test_def ends_with_iff p)
qed

subsection \<open>\<open>path.resolve\<close> returns a normal absolute path\<close>

definition good_segment :: "string \<Rightarrow> bool" where
  "good_segment x = (x \<noteq> [] \<and> x \<noteq> ''.'' \<and> x \<noteq> ''..'' \<and> CHR ''/'' \<notin> set x)"

lemma split_slash_acc_no_sep:
  "CHR ''/'' \<notin> set s \<Longrightarrow> split_slash_acc cur s = [rev cur @ s]"
  by (induction s arbitrary: cur) auto

lemma split_slash_acc_segments:
  "CHR ''/'' \<notin> set cur \<Longrightarrow> x \<in> set (split_slash_acc cur s) \<Longrightarrow> CHR ''/'' \<notin> set x"
proof (induction s arbitrary: cur)
  case Nil
  then show ?case by simp
next
  case (Cons ch chs)
  show ?case
  proof (cases "ch = CHR ''/''")
    case True
    with Cons.prems have "x = rev cur \<or> x \<in> set (split_slash_acc [] chs)" by simp
    with Cons.prems(1) Cons.IH [of "[]"] show ?thesis by auto
  next
    case False
    with Cons.prems have "x \<in> set (split_slash_acc (ch # cur) chs)" by simp
    with False Cons.prems(1) Cons.IH [of "ch # cur"] show ?thesis by auto
  qed
qed

lemma split_slash_acc_join:
  "CHR ''/'' \<notin> set s \<Longrightarrow> \<forall>t\<in>set ts. CHR ''/'' \<notin> set t \<Longrightarrow>
   split_slash_acc cur (s @ join_slash ts) = (rev cur @ s) # ts"
proof (induction ts arbitrary: cur s)
  case Nil
  then show ?case by (simp add: join_slash_def split_slash_acc_no_sep)
next
  case (Cons t ts)
  have "split_slash_acc cur (s @ join_slash (t # ts)) =
        split_slash_acc cur s @ split_slash_acc [] (t @ join_slash ts)"
    using split_slash_acc_append [of cur s "t @ join_slash ts"] by (simp add: join_slash_def)
  with Cons show ?case by (simp add: split_slash_acc_no_sep)
qed

lemma in_set_tl: "x \<in> set (tl xs) \<Longrightarrow> x \<in> set xs"
  by (cases xs) auto

lemma norm_segments_good:
  "\<forall>a\<in>set acc. good_segment a \<Longrightarrow> \<forall>x\<in>set xs. CHR ''/'' \<notin> set x \<Longrightarrow>
   \<forall>y\<in>set (norm_segments acc xs). good_segment y"
proof (induction acc xs rule: norm_segments.induct)
  case (1 acc)
  then show ?case by simp
next
  case (2 acc sg sgs)
  from "2.prems"(2) have rest: "\<forall>x\<in>set sgs. CHR ''/'' \<notin> set x" by simp
  show ?case
  proof (cases "sg = [] \<or> sg = ''.''")
    case True
    then have eq: "norm_segments acc (sg # sgs) = norm_segments acc sgs" by auto
    show ?thesis unfolding eq by (rule "2.IH"(1) [OF True "2.prems"(1) rest])
  next
    case F: False
    show ?thesis
    proof (cases "sg = ''..''")
      case True
      with F have eq: "norm_segments acc (sg # sgs) = norm_segments (tl acc) sgs" by simp
      from "2.prems"(1) have "\<forall>a\<in>set (tl acc). good_segment a" by (auto dest: in_set_tl)
      then show ?thesis unfolding eq by (rule "2.IH"(2) [OF F True _ rest])
    next
      case False
      with F have eq: "norm_segments acc (sg # sgs) = norm_segments (sg # acc) sgs" by simp
      from F False "2.prems" have "\<forall>a\<in>set (sg # acc). good_segment a"
        by (simp add: good_segment_def)
      then show ?thesis unfolding eq by (rule "2.IH"(3) [OF F False _ rest])
    qed
  qed
qed

lemma norm_segments_id:
  "\<forall>x\<in>set xs. good_segment x \<Longrightarrow> norm_segments acc xs = rev acc @ xs"
  by (induction acc xs rule: norm_segments.induct) (auto simp: good_segment_def)

lemma path_resolve_segments:
  obtains sgs where "\<forall>y\<in>set sgs. good_segment y"
    and "path_resolve dir p = (if sgs = [] then ''/'' else join_slash sgs)"
proof -
  let ?full = "if is_absolute p then p else dir @ ''/'' @ p"
  have "\<forall>x\<in>set (split_slash ?full). CHR ''/'' \<notin> set x"
    using split_slash_acc_segments [of "[]"] by (auto simp: split_slash_def)
  then have "\<forall>y\<in>set (norm_segments [] (split_slash ?full)). good_segment y"
    by (intro norm_segments_good) simp_all
  then show ?thesis using that by (simp add: path_resolve_def Let_def)
qed

lemma path_resolve_join:
  assumes "\<forall>y\<in>set sgs. good_segment y"
  shows "path_resolve dir' (if sgs = [] then ''/'' else join_slash sgs) =
         (if sgs = [] then ''/'' else join_slash sgs)"
proof (cases sgs)
  case Nil
  then show ?thesis
    by (simp add: path_resolve_def is_absolute_def split_slash_def)
next
  case (Cons y ys)
  have seg: "\<forall>t\<in>set sgs. CHR ''/'' \<notin> set t" using assms by (auto simp: good_segment_def)
  have abs: "is_absolute (join_slash sgs)" using Cons by (simp add: is_absolute_def join_slash_def)
  have "split_slash (join_slash sgs) = [] # sgs"
    using split_slash_acc_join [of "[]" sgs "[]"] seg by (simp add: split_slash_def)
  moreover have "norm_segments [] ([] # sgs) = sgs"
    using norm_segments_id [OF assms, of "[]"] by simp
  ultimately have "norm_segments [] (split_slash (join_slash sgs)) = sgs" by simp
  with abs Cons show ?thesis
    by (simp add: path_resolve_def Let_def del: norm_segments.simps)
qed


subsection \<open>Regular expressions and resolution against a normal directory\<close>

text \<open>
  The two regular expressions of the rule mean what they say: \<open>contains_str\<close>
  is substring search and \<open>tsx_test\<close> a suffix test.
\<close>

lemma contains_str_iff: "contains_str pat s \<longleftrightarrow> (\<exists>a b. s = a @ pat @ b)"
proof (induction s)
  case Nil
  then show ?case by simp
next
  case (Cons c cs)
  have pre: "take (length pat) (c # cs) = pat \<longleftrightarrow> (\<exists>b. c # cs = pat @ b)"
    by (metis append_eq_conv_conj)
  have "(\<exists>a b. c # cs = a @ pat @ b) \<longleftrightarrow> (\<exists>b. c # cs = pat @ b) \<or> (\<exists>a b. cs = a @ pat @ b)"
    by (auto simp: Cons_eq_append_conv)
  with pre Cons.IH show ?case by simp
qed

lemma tsx_test_iff: "tsx_test f \<longleftrightarrow> (\<exists>p. f = p @ ''.ts'') \<or> (\<exists>p. f = p @ ''.tsx'')"
  by (simp add: tsx_test_def ends_with_iff)

text \<open>
  Normalising an already normal prefix only pushes it onto the accumulator;
  normalisation of a concatenation is normalisation of the rest from the
  normalised prefix.
\<close>

lemma norm_segments_append_good:
  "\<forall>x\<in>set xs. good_segment x \<Longrightarrow> norm_segments acc (xs @ ys) = norm_segments (rev xs @ acc) ys"
  by (induction xs arbitrary: acc) (auto simp: good_segment_def)



lemma split_slash_join_rel:
  "\<forall>x\<in>set ss. good_segment x \<Longrightarrow>
   split_slash (join_slash ss @ CHR ''/'' # p) = [] # ss @ split_slash p"
proof -
  assume g: "\<forall>x\<in>set ss. good_segment x"
  then have "split_slash_acc [] (join_slash ss) = [] # ss"
    using split_slash_acc_join [of "[]" ss "[]"] by (auto simp: good_segment_def)
  then show ?thesis
    using split_slash_acc_append [of "[]" "join_slash ss" p] by (simp add: split_slash_def)
qed

lemma path_resolve_join_rel:
  assumes "\<forall>x\<in>set ss. good_segment x" and "\<not> is_absolute p"
  shows "path_resolve (join_slash ss) p =
    (let sgs = norm_segments (rev ss) (split_slash p) in if sgs = [] then ''/'' else join_slash sgs)"
proof -
  have "norm_segments [] ([] # ss @ split_slash p) = norm_segments (rev ss) (split_slash p)"
    using norm_segments_append_good [OF assms(1), of "[]" "split_slash p"] by simp
  with assms show ?thesis
    by (simp add: path_resolve_def split_slash_join_rel del: norm_segments.simps)
qed

subsection \<open>Properties of the configuration's paths and resolution\<close>

text \<open>
  C12: \<open>path.resolve\<close> always returns an absolute, normalised path:
  resolving its result again, against any directory, gives it back unchanged.
\<close>

theorem path_resolve_idempotent:
  "is_absolute (path_resolve dir p) \<and> path_resolve dir' (path_resolve dir p) = path_resolve dir p"
proof -
  obtain sgs where g: "\<forall>y\<in>set sgs. good_segment y"
    and eq: "path_resolve dir p = (if sgs = [] then ''/'' else join_slash sgs)"
    by (rule path_resolve_segments)
  have "is_absolute (if sgs = [] then ''/'' else join_slash sgs)"
    by (cases sgs) (simp_all add: is_absolute_def join_slash_def)
  with path_resolve_join [OF g, of dir'] eq show ?thesis by simp
qed

text \<open>
  C11: with \<open>resolve.extensions: ['.js', '.ts']\<close> a request is resolved to
  the file it names when that exists, else to its \<open>.js\<close> file, else to its
  \<open>.ts\<close> file, else not at all: a \<open>.js\<close> file shadows a \<open>.ts\<close> file of the
  same name.
\<close>

theorem resolve_module_order:
  "(exists req \<longrightarrow> resolve_module (example_config dir) exists req = Some req) \<and>
   (\<not> exists req \<and> exists (req @ ''.js'') \<longrightarrow>
      resolve_module (example_config dir) exists req = Some (req @ ''.js'')) \<and>
   (\<not> exists req \<and> \<not> exists (req @ ''.js'') \<and> exists (req @ ''.ts'') \<longrightarrow>
      resolve_module (example_config dir) exists req = Some (req @ ''.ts'')) \<and>
   (\<not> exists req \<and> \<not> exists (req @ ''.js'') \<and> \<not> exists (req @ ''.ts'') \<longrightarrow>
      resolve_module (example_config dir) exists req = None)"
  by (simp add: resolve_module_def example_config_def)

theorem resolve_module_order_witness:
  "\<not> (''/a/util'' \<in> {''/a/util.js'', ''/a/util.ts''}) \<and> ''/a/util.js'' \<in> {''/a/util.js'', ''/a/util.ts''} \<and>
   resolve_module (example_config ''/r'') (\<lambda>f. f \<in> {''/a/util.js'', ''/a/util.ts''}) ''/a/util'' =
     Some ''/a/util.js'' \<and>
   resolve_module (example_config ''/r'') (\<lambda>f. f \<in> {''/a/util.ts''}) ''/a/util'' = Some ''/a/util.ts''"
proof -
  have n1: "\<not> (''/a/util'' \<in> {''/a/util.js'', ''/a/util.ts''})"
    and e1: "''/a/util'' @ ''.js'' \<in> {''/a/util.js'', ''/a/util.ts''}"
    and n2: "\<not> (''/a/util'' \<in> {''/a/util.ts''})" and n3: "\<not> (''/a/util'' @ ''.js'' \<in> {''/a/util.ts''})"
    and e3: "''/a/util'' @ ''.ts'' \<in> {''/a/util.ts''}"
    by simp_all
  from resolve_module_order [of "\<lambda>f. f \<in> {''/a/util.js'', ''/a/util.ts''}" "''/a/util''" "''/r''"]
    resolve_module_order [of "\<lambda>f. f \<in> {''/a/util.ts''}" "''/a/util''" "''/r''"] n1 e1 n2 n3 e3
  show ?thesis by simp
qed

text \<open>
  C7: where the two entries resolve.  For every normalised absolute
  \<open>__dirname\<close>, given by its segments, the client entry is
  \<open>dist/client.js\<close> three directories up (never above the root: \<open>..\<close> at
  the root stays there) and the application entry is \<open>app/main.ts\<close> in the
  sibling directory.
\<close>

theorem example_entry_paths:
  assumes "\<forall>x\<in>set ss. good_segment x"
  shows "example_entry (join_slash ss) =
     [join_slash (take (length ss - 3) ss @ [''dist'', ''client.js'']),
      join_slash (butlast ss @ [''app'', ''main.ts''])]"
proof -
  have "tl (tl (tl (rev ss))) = drop 3 (rev ss)"
    by (simp add: numeral_3_eq_3 drop_Suc)
  also have "\<dots> = rev (take (length ss - 3) ss)"
    by (cases "3 \<le> length ss") (simp_all add: rev_take)
  finally have t3: "tl (tl (tl (rev ss))) = rev (take (length ss - 3) ss)" .
  have t1: "tl (rev ss) = rev (butlast ss)"
    by (cases ss rule: rev_cases) simp_all
  have "path_resolve (join_slash ss) ''../../../dist/client.js'' =
        join_slash (take (length ss - 3) ss @ [''dist'', ''client.js''])"
    using path_resolve_join_rel [OF assms, of "''../../../dist/client.js''"]
    by (simp add: is_absolute_def split_slash_def t3)
  moreover have "path_resolve (join_slash ss) ''../app/main.ts'' =
        join_slash (butlast ss @ [''app'', ''main.ts''])"
    using path_resolve_join_rel [OF assms, of "''../app/main.ts''"]
    by (simp add: is_absolute_def split_slash_def t1)
  ultimately show ?thesis by (simp add: example_entry_def)
qed


theorem example_entry_paths_witness:
  "good_segment ''repo'' \<and> good_segment ''examples'' \<and> good_segment ''webpack'' \<and>
   good_segment ''server'' \<and>
   example_entry ''/repo/examples/webpack/server'' =
     [''/repo/dist/client.js'', ''/repo/examples/webpack/app/main.ts''] \<and>
   good_segment ''srv'' \<and> example_entry ''/srv'' = [''/dist/client.js'', ''/app/main.ts'']"
proof -
  have g1: "\<forall>x\<in>set [''repo'', ''examples'', ''webpack'', ''server'']. good_segment x"
    and g2: "\<forall>x\<in>set [''srv'']. good_segment x"
    by (simp_all add: good_segment_def)
  from example_entry_paths [OF g1] example_entry_paths [OF g2] g1 g2 show ?thesis
    by (simp add: join_slash_def good_segment_def)
qed



text \<open>
  C9: the module rule in terms of its regular expressions: a module gets
  \<open>ts-loader\<close> (transpile only) exactly when its path ends in \<open>.ts\<close> or
  \<open>.tsx\<close> and contains no \<open>node_modules\<close>, and no loader otherwise.
\<close>

theorem module_rule_semantics:
  "loaders_for (example_config dir) f =
     (if ((\<exists>p. f = p @ ''.ts'') \<or> (\<exists>p. f = p @ ''.tsx'')) \<and> \<not> (\<exists>a b. f = a @ ''node_modules'' @ b)
      then [ts_loader_use] else [])"
  by (simp add: loaders_for_def rule_applies_def ts_rule_def example_config_def tsx_test_iff
      node_modules_exclude_def contains_str_iff)

theorem module_rule_semantics_witness:
  "loaders_for (example_config ''/r'') ''/r/app/view.tsx'' = [ts_loader_use] \<and>
   loaders_for (example_config ''/r'') ''/r/node_modules/lib/index.ts'' = [] \<and>
   loaders_for (example_config ''/r'') ''/r/app/util.js'' = []"
proof -
  have "\<exists>p. ''/r/app/view.tsx'' = p @ ''.tsx''" by (rule exI [of _ "''/r/app/view''"]) simp
  moreover have "\<not> (\<exists>a b. ''/r/app/view.tsx'' = a @ ''node_modules'' @ b)"
    using contains_str_iff [of "''node_modules''" "''/r/app/view.tsx''"] by simp
  moreover have "\<exists>a b. ''/r/node_modules/lib/index.ts'' = a @ ''node_modules'' @ b"
    by (rule exI [of _ "''/r/''"], rule exI [of _ "''/lib/index.ts''"]) simp
  moreover have "\<not> (\<exists>p. ''/r/app/util.js'' = p @ ''.ts'') \<and> \<not> (\<exists>p. ''/r/app/util.js'' = p @ ''.tsx'')"
    using ends_with_js_not_ts [of "''/r/app/util.js''"] by (simp add: tsx_test_iff ends_with_def)
  ultimately show ?thesis
    using module_rule_semantics [of "''/r''" "''/r/app/view.tsx''"]
      module_rule_semantics [of "''/r''" "''/r/node_modules/lib/index.ts''"]
      module_rule_semantics [of "''/r''" "''/r/app/util.js''"]
    by simp
qed

text \<open>
  C10: extensions and rule together.  A request without a TypeScript
  extension that the resolver resolves gets \<open>ts-loader\<close> exactly when it
  resolved to its \<open>.ts\<close> file outside \<open>node_modules\<close>: the file itself or its
  \<open>.js\<close> file gets no loader.
\<close>

theorem resolved_modules_loaders:
  assumes "resolve_module (example_config dir) exists req = Some f" and "\<not> tsx_test req"
  shows "loaders_for (example_config dir) f =
           (if f = req @ ''.ts'' \<and> \<not> node_modules_exclude f then [ts_loader_use] else [])"
proof -
  have l: "loaders_for (example_config dir) f =
      (if tsx_test f \<and> \<not> node_modules_exclude f then [ts_loader_use] else [])"
    by (simp add: loaders_for_def rule_applies_def ts_rule_def example_config_def)
  from assms(1) have "f = req \<or> f = req @ ''.js'' \<or> f = req @ ''.ts''"
    by (auto simp: resolve_module_def example_config_def split: if_splits)
  then show ?thesis
  proof (elim disjE)
    assume "f = req"
    with assms(2) l show ?thesis by simp
  next
    assume f: "f = req @ ''.js''"
    then have "ends_with ''.js'' f" by (simp add: ends_with_iff)
    with f l show ?thesis by (simp add: ends_with_js_not_ts)
  next
    assume f: "f = req @ ''.ts''"
    then have "tsx_test f" by (simp add: tsx_test_iff)
    with f l show ?thesis by simp
  qed
qed

theorem resolved_modules_loaders_witness:
  "resolve_module (example_config ''/r'') (\<lambda>f. f = ''/r/app/util.ts'') ''/r/app/util'' =
     Some ''/r/app/util.ts'' \<and> \<not> tsx_test ''/r/app/util'' \<and>
   loaders_for (example_config ''/r'') ''/r/app/util.ts'' = [ts_loader_use] \<and>
   resolve_module (example_config ''/r'') (\<lambda>f. f \<in> {''/r/app/util.js'', ''/r/app/util.ts''})
     ''/r/app/util'' = Some ''/r/app/util.js'' \<and>
   loaders_for (example_config ''/r'') ''/r/app/util.js'' = []"
proof -
  have r1: "resolve_module (example_config ''/r'') (\<lambda>f. f = ''/r/app/util.ts'') ''/r/app/util'' =
      Some ''/r/app/util.ts''"
    and r2: "resolve_module (example_config ''/r'') (\<lambda>f. f \<in> {''/r/app/util.js'', ''/r/app/util.ts''})
      ''/r/app/util'' = Some ''/r/app/util.js''"
    by (simp_all add: resolve_module_def example_config_def)
  have t: "\<not> tsx_test ''/r/app/util''" by (simp add: tsx_test_def ends_with_def)
  have n: "\<not> node_modules_exclude ''/r/app/util.ts''" by (simp add: node_modules_exclude_def)
  from resolved_modules_loaders [OF r1 t] resolved_modules_loaders [OF r2 t] r1 r2 t n show ?thesis
    by simp
qed

end
