(* ===== verification/BuildCoordinator.thy ===== *)
theory BuildCoordinator
  imports ArtifactStore WebpackConfig
begin

text \<open>
  The Build Coordinator (spec section 4.1): the single owner of the build
  state.  It reacts to the compiler's two signals, \<open>on_build_begin\<close> and
  \<open>on_build_end\<close>, starts and stops watch mode, swaps the Artifact Store on
  success, and returns the \<open>build_result\<close> it fans out to the Request Gate
  and the Update Bridge.  Changed modules are a set difference of module
  identities, where a module's identity is its id together with its content
  hash in the compiler's module-graph snapshot.
\<close>

datatype build_state = Idle | Compiling | Valid | Invalid

datatype outcome =
    Success "(path \<times> artifact) list" "module_id list"
  | Failure "diagnostic list"

record build_result =
  res_gen :: generation
  res_outcome :: outcome
  res_time :: time_ms

datatype coord_error = CompilerStartError

type_synonym module_snapshot = "(module_id \<times> string) list"

record coordinator =
  bstate :: build_state
  generation :: generation
  watching :: bool
  releases :: nat
  store :: store
  prev_modules :: module_snapshot
  diagnostics :: "generation \<times> diagnostic list"

definition init_coordinator :: coordinator where
  "init_coordinator =
     \<lparr>bstate = Idle, generation = 0, watching = False, releases = 0,
      store = empty_store, prev_modules = [], diagnostics = (0, [])\<rparr>"

definition changed_modules :: "module_snapshot \<Rightarrow> module_snapshot \<Rightarrow> module_id list" where
  "changed_modules new old = remdups (map fst (filter (\<lambda>m. m \<notin> set old) new))"

text \<open>
  \<open>start compiler\<close>: a compiler whose configuration webpack rejects cannot
  enter watch mode, the fatal \<open>CompilerStartError\<close>; otherwise the
  coordinator begins generation 1 (the next generation after a stop).
  Starting a running coordinator changes nothing.
\<close>

definition start :: "webpack_config \<Rightarrow> coordinator \<Rightarrow> coord_error + coordinator" where
  "start compiler c =
     (if \<not> compiler_valid compiler then Inl CompilerStartError
      else if watching c then Inr c
      else Inr (c\<lparr>bstate := Compiling, generation := Suc (generation c), watching := True\<rparr>))"

definition stop :: "coordinator \<Rightarrow> coordinator" where
  "stop c =
     (if watching c then c\<lparr>watching := False, bstate := Idle, releases := Suc (releases c)\<rparr>
      else c)"

definition on_build_begin :: "coordinator \<Rightarrow> coordinator" where
  "on_build_begin c =
     (if watching c \<and> (bstate c = Valid \<or> bstate c = Invalid)
      then c\<lparr>bstate := Compiling, generation := Suc (generation c)\<rparr>
      else c)"

definition on_build_end ::
  "time_ms \<Rightarrow> diagnostic list \<Rightarrow> module_snapshot \<Rightarrow> (path \<times> artifact) list \<Rightarrow>
   coordinator \<Rightarrow> coordinator \<times> build_result option" where
  "on_build_end now errs mods arts c =
     (if \<not> watching c \<or> bstate c \<noteq> Compiling then (c, None)
      else if errs \<noteq> [] then
        (c\<lparr>bstate := Invalid, diagnostics := (generation c, errs)\<rparr>,
         Some \<lparr>res_gen = generation c, res_outcome = Failure errs, res_time = now\<rparr>)
      else
        (c\<lparr>bstate := Valid, store := swap (generation c) arts (store c), prev_modules := mods\<rparr>,
         Some \<lparr>res_gen = generation c,
               res_outcome = Success arts (changed_modules mods (prev_modules c)),
               res_time = now\<rparr>))"

text \<open>A coordinator compiling generation 1, and the same one after that build succeeded.\<close>

definition demo_compiling :: coordinator where
  "demo_compiling = init_coordinator\<lparr>bstate := Compiling, generation := 1, watching := True\<rparr>"

definition demo_valid :: coordinator where
  "demo_valid =
     demo_compiling\<lparr>bstate := Valid, store := swap 1 [(''/main.js'', demo_bundle)] empty_store\<rparr>"

declare demo_compiling_def [plugin_defs] demo_valid_def [plugin_defs]

declare init_coordinator_def [plugin_defs] start_def [plugin_defs] stop_def [plugin_defs]
  on_build_begin_def [plugin_defs] on_build_end_def [plugin_defs]

subsection \<open>Behaviour of each operation\<close>

lemma set_changed_modules:
  "set (changed_modules new old) = fst ` (set new - set old)"
  by (auto simp: changed_modules_def)


lemma on_build_end_Compiling:
  assumes "watching c" and "bstate c = Compiling"
  shows "\<exists>r. on_build_end now errs mods arts c = (fst (on_build_end now errs mods arts c), Some r)
           \<and> res_gen r = generation c"
  using assms by (simp add: on_build_end_def)

lemma on_build_end_ignored:
  "\<not> watching c \<or> bstate c \<noteq> Compiling \<Longrightarrow> on_build_end now errs mods arts c = (c, None)"
  by (simp add: on_build_end_def)

lemma on_build_end_generation [simp]:
  "generation (fst (on_build_end now errs mods arts c)) = generation c"
  by (simp add: on_build_end_def)

lemma on_build_end_watching [simp]:
  "watching (fst (on_build_end now errs mods arts c)) = watching c"
  by (simp add: on_build_end_def)

subsection \<open>Properties of the coordinator's operations\<close>

text \<open>
  \<open>stop\<close> is idempotent: stopping twice is stopping once, and the
  compiler's resources are released once when the coordinator was watching
  and never when it was already stopped.
\<close>

lemma stop_idempotent:
  "stop (stop c) = stop c \<and> \<not> watching (stop c) \<and>
   releases (stop c) = releases c + (if watching c then 1 else 0)"
  by (simp add: stop_def)

lemma start_outcomes:
  shows "\<not> compiler_valid cfg \<Longrightarrow> start cfg c = Inl CompilerStartError"
    and "compiler_valid cfg \<Longrightarrow> \<not> watching c \<Longrightarrow>
         start cfg c = Inr (c\<lparr>bstate := Compiling, generation := Suc (generation c), watching := True\<rparr>)"
    and "compiler_valid cfg \<Longrightarrow> watching c \<Longrightarrow> start cfg c = Inr c"
  by (simp_all add: start_def)

text \<open>
  The changed-module computation is order independent: two snapshots
  listing the same module identities in different orders, against two previous
  snapshots that do too, give the same set of changed module ids, namely the
  ids of the identities that are new.
\<close>

lemma changed_modules_order_independent:
  assumes "set new = set new'" and "set old = set old'"
  shows "set (changed_modules new old) = set (changed_modules new' old')
         \<and> set (changed_modules new old) = fst ` (set new - set old)"
  using assms by (simp add: set_changed_modules)

text \<open>
  One rebuild cycle from a resolved state: the begin signal opens the next
  generation and the end signal resolves exactly that generation.  On success
  the state becomes \<open>Valid\<close> and the store holds the new artifact set and only
  it; on failure the state becomes \<open>Invalid\<close>, the diagnostics are stamped with
  the new generation, and the store keeps the last good generation.
\<close>

lemma build_cycle:
  assumes "watching c" and "bstate c = Valid \<or> bstate c = Invalid"
  shows "\<exists>c' r. on_build_end now errs mods arts (on_build_begin c) = (c', Some r) \<and>
           res_gen r = Suc (generation c) \<and> generation c' = Suc (generation c) \<and>
           (errs = [] \<longrightarrow> bstate c' = Valid \<and> store_gen (store c') = Suc (generation c) \<and>
              get (store c') = map_of arts) \<and>
           (errs \<noteq> [] \<longrightarrow> bstate c' = Invalid \<and> store c' = store c \<and>
              diagnostics c' = (Suc (generation c), errs) \<and> res_outcome r = Failure errs)"
  using assms by (auto simp: on_build_begin_def on_build_end_def get_swap)

end
