(* ===== verification/RequestGate.thy ===== *)
theory RequestGate
  imports BuildCoordinator
begin

text \<open>
  The Request Gate (spec section 4.2): the HTTP face of the plugin.  It
  normalises a request path, answers from the coordinator's store when the
  build is \<open>Valid\<close>, answers with the generation-stamped diagnostics when it is
  \<open>Invalid\<close>, and otherwise (a compile in flight, or watch mode not running)
  either holds the request in a FIFO wait queue or, under the \<open>Stale\<close>
  policy, serves the last valid generation's artifact.  Held requests are
  released in registration order when a build result is dispatched, expire
  with \<open>RequestTimeout\<close> at their deadline, and are dropped without a
  response when their connection closes.  The gate's state is the wait queue
  and the log of responses written, each tagged with its request handle.
\<close>

datatype hold_policy = Hold | Stale

text \<open>
  The options object given to \<open>app.register(fastifyWebpack, options)\<close>: the
  compiler, and the spec's recognised options, each absent unless given.
\<close>

record plugin_options =
  compiler :: webpack_config
  hold_policy_opt :: "hold_policy option"
  request_timeout_opt :: "time_ms option"
  entry_fallback_opt :: "string option"

text \<open>The defaults: hold, no timeout, \<open>index.html\<close>.\<close>

definition policy_of :: "plugin_options \<Rightarrow> hold_policy" where
  "policy_of opts = (case hold_policy_opt opts of None \<Rightarrow> Hold | Some p \<Rightarrow> p)"

definition entry_fallback_of :: "plugin_options \<Rightarrow> string" where
  "entry_fallback_of opts = (case entry_fallback_opt opts of None \<Rightarrow> ''index.html'' | Some e \<Rightarrow> e)"

datatype response =
    Ok200 string string string generation
  | NotFound404
  | BuildError generation "diagnostic list"
  | RequestTimeout

record pending_request =
  req_id :: request_id
  req_key :: path
  registered_gen :: generation
  deadline :: "time_ms option"

record gate =
  pending :: "pending_request list"
  responses :: "(request_id \<times> response) list"

definition init_gate :: gate where
  "init_gate = \<lparr>pending = [], responses = []\<rparr>"

definition normalize_path :: "plugin_options \<Rightarrow> store \<Rightarrow> string \<Rightarrow> path" where
  "normalize_path opts st raw =
     (let p = takeWhile (\<lambda>ch. ch \<noteq> CHR ''?'') raw
      in if p = ''/'' \<and> get st p = None then ''/'' @ entry_fallback_of opts else p)"

definition serve_key :: "coordinator \<Rightarrow> path \<Rightarrow> response" where
  "serve_key c k =
     (case get (store c) k of
        Some a \<Rightarrow> Ok200 (content a) (content_type a) (content_hash a) (store_gen (store c))
      | None \<Rightarrow> NotFound404)"

text \<open>The answer of a resolved build: the diagnostics when it failed, the store otherwise.\<close>

definition resolve :: "coordinator \<Rightarrow> path \<Rightarrow> response" where
  "resolve c k =
     (if bstate c = Invalid then BuildError (fst (diagnostics c)) (snd (diagnostics c))
      else serve_key c k)"

text \<open>\<open>handle\<close> returns \<open>None\<close> when the request must wait for the build in flight.\<close>

definition handle :: "plugin_options \<Rightarrow> coordinator \<Rightarrow> path \<Rightarrow> response option" where
  "handle opts c k =
     (if bstate c = Valid \<or> bstate c = Invalid then Some (resolve c k)
      else if policy_of opts = Stale \<and> get (store c) k \<noteq> None then Some (serve_key c k)
      else None)"

definition gate_request ::
  "plugin_options \<Rightarrow> coordinator \<Rightarrow> time_ms \<Rightarrow> request_id \<Rightarrow> string \<Rightarrow> gate \<Rightarrow> gate" where
  "gate_request opts c now rid raw gt =
     (let k = normalize_path opts (store c) raw
      in case handle opts c k of
           Some r \<Rightarrow> gt\<lparr>responses := responses gt @ [(rid, r)]\<rparr>
         | None \<Rightarrow> gt\<lparr>pending := pending gt @
                      [\<lparr>req_id = rid, req_key = k, registered_gen = generation c,
                        deadline = map_option (\<lambda>t. now + t) (request_timeout_opt opts)\<rparr>]\<rparr>)"

definition release_pending :: "coordinator \<Rightarrow> gate \<Rightarrow> gate" where
  "release_pending c gt =
     gt\<lparr>pending := [],
        responses := responses gt @ map (\<lambda>p. (req_id p, resolve c (req_key p))) (pending gt)\<rparr>"

definition expired :: "time_ms \<Rightarrow> pending_request \<Rightarrow> bool" where
  "expired now p = (case deadline p of None \<Rightarrow> False | Some d \<Rightarrow> d \<le> now)"

definition expire :: "time_ms \<Rightarrow> gate \<Rightarrow> gate" where
  "expire now gt =
     gt\<lparr>pending := filter (\<lambda>p. \<not> expired now p) (pending gt),
        responses := responses gt @
          map (\<lambda>p. (req_id p, RequestTimeout)) (filter (expired now) (pending gt))\<rparr>"

definition cancel :: "request_id \<Rightarrow> gate \<Rightarrow> gate" where
  "cancel rid gt = gt\<lparr>pending := filter (\<lambda>p. req_id p \<noteq> rid) (pending gt)\<rparr>"

text \<open>The generation a response reports (its hash header's generation), where it has one.\<close>

definition response_gen :: "response \<Rightarrow> generation option" where
  "response_gen r =
     (case r of Ok200 _ _ _ g \<Rightarrow> Some g | BuildError g _ \<Rightarrow> Some g | _ \<Rightarrow> None)"

text \<open>
  The example's options with the spec's timeout scenario added: the compiler
  of the example run from \<open>/repo/examples/webpack/server\<close>, a 50 ms timeout,
  the other options at their defaults.
\<close>

definition demo_options :: plugin_options where
  "demo_options =
     \<lparr>compiler = example_config ''/repo/examples/webpack/server'', hold_policy_opt = None,
      request_timeout_opt = Some 50, entry_fallback_opt = None\<rparr>"

declare demo_options_def [plugin_defs] policy_of_def [plugin_defs] entry_fallback_of_def [plugin_defs]
  expired_def [plugin_defs]

declare init_gate_def [plugin_defs] normalize_path_def [plugin_defs] serve_key_def [plugin_defs]
  resolve_def [plugin_defs] handle_def [plugin_defs] gate_request_def [plugin_defs]
  release_pending_def [plugin_defs] expire_def [plugin_defs] cancel_def [plugin_defs]

subsection \<open>Answers of the gate\<close>

lemma handle_None_iff:
  "handle opts c k = None \<longleftrightarrow>
   bstate c \<noteq> Valid \<and> bstate c \<noteq> Invalid \<and> (policy_of opts = Hold \<or> get (store c) k = None)"
  by (cases "policy_of opts") (auto simp: handle_def)

lemma gate_request_deferred:
  "handle opts c (normalize_path opts (store c) raw) = None \<Longrightarrow>
   gate_request opts c now rid raw gt =
     gt\<lparr>pending := pending gt @
          [\<lparr>req_id = rid, req_key = normalize_path opts (store c) raw,
            registered_gen = generation c,
            deadline = map_option (\<lambda>t. now + t) (request_timeout_opt opts)\<rparr>]\<rparr>"
  by (simp add: gate_request_def)

lemma filter_not_fresh [simp]:
  "rid \<notin> req_id ` set ps \<Longrightarrow> filter (\<lambda>p. req_id p \<noteq> rid) ps = ps"
  by (induction ps) auto

text \<open>
  C3: under the hold policy (the default of the options object) a request that
  arrives while a compile is in flight is never answered from the old store: it
  is appended to the wait queue, tagged with the generation being compiled and
  with the deadline its options give, and no response is written.
\<close>

theorem hold_policy_defers:
  assumes "bstate c = Compiling" and "policy_of opts = Hold"
  shows "gate_request opts c now rid raw gt =
     gt\<lparr>pending := pending gt @
          [\<lparr>req_id = rid, req_key = normalize_path opts (store c) raw,
            registered_gen = generation c,
            deadline = map_option (\<lambda>t. now + t) (request_timeout_opt opts)\<rparr>]\<rparr>"
  using assms by (simp add: gate_request_deferred handle_None_iff)

theorem hold_policy_defers_witness:
  "bstate demo_compiling = Compiling \<and> policy_of demo_options = Hold \<and>
   gate_request demo_options demo_compiling 0 7 ''/main.js?v=2'' init_gate =
     \<lparr>pending = [\<lparr>req_id = 7, req_key = ''/main.js'', registered_gen = 1, deadline = Some 50\<rparr>],
      responses = []\<rparr>"
  using hold_policy_defers [of demo_compiling demo_options 0 7 "''/main.js?v=2''" init_gate]
  by (simp add: plugin_defs)

text \<open>
  While the build is valid the gate answers from the store, whatever the
  options: 200 with the artifact's content, content type, hash and the store's
  generation when the key is present, 404 when it is not; nothing is held.
\<close>

theorem handle_valid:
  assumes "bstate c = Valid"
  shows "handle opts c k =
     Some (case get (store c) k of
             Some a \<Rightarrow> Ok200 (content a) (content_type a) (content_hash a) (store_gen (store c))
           | None \<Rightarrow> NotFound404)"
  using assms by (simp add: handle_def resolve_def serve_key_def)

theorem handle_valid_witness:
  "bstate demo_valid = Valid \<and>
   handle demo_options demo_valid ''/main.js'' =
     Some (Ok200 ''console.log(1)'' ''application/javascript'' ''a1'' 1) \<and>
   handle demo_options demo_valid ''/other.js'' = Some NotFound404"
  using handle_valid [of demo_valid demo_options "''/main.js''"]
    handle_valid [of demo_valid demo_options "''/other.js''"]
  by (simp add: plugin_defs)

text \<open>
  When the options choose the stale policy, a request that arrives while a
  compile is in flight and whose key the last valid generation has is answered
  at once with that generation's artifact.
\<close>

theorem stale_policy_serves_previous:
  assumes "bstate c = Compiling" and "hold_policy_opt opts = Some Stale"
    and "get (store c) k = Some a"
  shows "handle opts c k =
     Some (Ok200 (content a) (content_type a) (content_hash a) (store_gen (store c)))"
  using assms by (simp add: handle_def serve_key_def policy_of_def)

theorem stale_policy_serves_previous_witness:
  "bstate (demo_valid\<lparr>bstate := Compiling, generation := 2\<rparr>) = Compiling \<and>
   hold_policy_opt (demo_options\<lparr>hold_policy_opt := Some Stale\<rparr>) = Some Stale \<and>
   get (store (demo_valid\<lparr>bstate := Compiling, generation := 2\<rparr>)) ''/main.js'' = Some demo_bundle \<and>
   handle (demo_options\<lparr>hold_policy_opt := Some Stale\<rparr>) (demo_valid\<lparr>bstate := Compiling, generation := 2\<rparr>)
     ''/main.js'' = Some (Ok200 ''console.log(1)'' ''application/javascript'' ''a1'' 1)"
  using stale_policy_serves_previous [of "demo_valid\<lparr>bstate := Compiling, generation := 2\<rparr>"
      "demo_options\<lparr>hold_policy_opt := Some Stale\<rparr>" "''/main.js''" demo_bundle]
  by (simp add: plugin_defs)

text \<open>
  Normalisation drops the query string, and the root path falls back to
  the entry the options name (\<open>index.html\<close> by default) when the store has
  no exact match for it.
\<close>

theorem normalize_path_query_and_root:
  assumes "CHR ''?'' \<notin> set p"
  shows "normalize_path opts st (p @ CHR ''?'' # q) = normalize_path opts st p"
    and "get st ''/'' = None \<Longrightarrow> normalize_path opts st ''/'' = ''/'' @ entry_fallback_of opts"
  using assms by (simp_all add: normalize_path_def takeWhile_upto takeWhile_no_sep)

theorem normalize_path_query_and_root_witness:
  "CHR ''?'' \<notin> set ''/main.js'' \<and> get empty_store ''/'' = None \<and>
   normalize_path demo_options empty_store ''/main.js?v=3'' = ''/main.js'' \<and>
   normalize_path demo_options empty_store ''/'' = ''/index.html''"
proof -
  have q: "CHR ''?'' \<notin> set ''/main.js''" by simp
  have r: "get empty_store ''/'' = None" by simp
  have "normalize_path demo_options empty_store (''/main.js'' @ CHR ''?'' # ''v=3'') =
        normalize_path demo_options empty_store ''/main.js''"
    by (rule normalize_path_query_and_root(1) [OF q])
  moreover have "normalize_path demo_options empty_store ''/'' = ''/'' @ entry_fallback_of demo_options"
    by (rule normalize_path_query_and_root(2) [OF q r])
  ultimately show ?thesis by (simp add: plugin_defs)
qed

text \<open>
  A held request times out exactly at the deadline its options give: a
  tick before \<open>now + t\<close> leaves it queued without an answer, a tick at or
  after it answers \<open>RequestTimeout\<close> and removes it from the queue.
\<close>

theorem held_request_times_out:
  assumes "handle opts c (normalize_path opts (store c) raw) = None"
    and "request_timeout_opt opts = Some t" and "rid \<notin> req_id ` set (pending gt)"
  shows "(tick < now + t \<longrightarrow>
           rid \<in> req_id ` set (pending (expire tick (gate_request opts c now rid raw gt))) \<and>
           (rid, RequestTimeout) \<notin> set (responses (expire tick (gate_request opts c now rid raw gt)))
                                    - set (responses gt)) \<and>
         (now + t \<le> tick \<longrightarrow>
           (rid, RequestTimeout) \<in> set (responses (expire tick (gate_request opts c now rid raw gt))) \<and>
           rid \<notin> req_id ` set (pending (expire tick (gate_request opts c now rid raw gt))))"
  using assms
  by (auto simp: gate_request_deferred expire_def expired_def split: option.splits)

theorem held_request_times_out_witness:
  "handle demo_options demo_compiling (normalize_path demo_options (store demo_compiling) ''/main.js'') = None \<and>
   request_timeout_opt demo_options = Some 50 \<and> (7::nat) \<notin> req_id ` set (pending init_gate) \<and>
   expire 50 (gate_request demo_options demo_compiling 0 7 ''/main.js'' init_gate) =
     \<lparr>pending = [], responses = [(7, RequestTimeout)]\<rparr>"
proof -
  have h: "handle demo_options demo_compiling (normalize_path demo_options (store demo_compiling) ''/main.js'') = None"
    and t: "request_timeout_opt demo_options = Some 50"
    and f: "(7::nat) \<notin> req_id ` set (pending init_gate)"
    by (simp_all add: plugin_defs)
  from held_request_times_out [OF h t f, where tick = 50 and now = 0] h t f show ?thesis
    by (simp add: plugin_defs)
qed

text \<open>
  Closing the connection of a held request leaves no trace: registering a
  request that must wait and then cancelling it gives back exactly the gate it
  started from, with no queued entry and no response written.
\<close>

theorem cancel_held_request:
  assumes "handle opts c (normalize_path opts (store c) raw) = None"
    and "rid \<notin> req_id ` set (pending gt)"
  shows "cancel rid (gate_request opts c now rid raw gt) = gt"
  using assms by (simp add: gate_request_deferred cancel_def)

theorem cancel_held_request_witness:
  "handle demo_options demo_compiling (normalize_path demo_options (store demo_compiling) ''/main.js'') = None \<and>
   (7::nat) \<notin> req_id ` set (pending init_gate) \<and>
   pending (gate_request demo_options demo_compiling 0 7 ''/main.js'' init_gate) \<noteq> [] \<and>
   cancel 7 (gate_request demo_options demo_compiling 0 7 ''/main.js'' init_gate) = init_gate"
proof -
  have h: "handle demo_options demo_compiling (normalize_path demo_options (store demo_compiling) ''/main.js'') = None"
    and f: "(7::nat) \<notin> req_id ` set (pending init_gate)"
    by (simp_all add: plugin_defs)
  from cancel_held_request [OF h f, of 0] h f show ?thesis
    by (simp add: plugin_defs)
qed

end
