(* ===== verification/UpdateBridge.thy ===== *)
theory UpdateBridge
  imports BuildCoordinator
begin

text \<open>
  The Update Bridge (spec section 4.3): the set of live-reload subscribers,
  each with the channel of messages delivered to it.  \<open>subscribe\<close> opens a
  fresh channel with no backlog; \<open>broadcast\<close> walks the subscribers in order
  and, per client, either appends the message to its channel or, when the
  delivery fails, unsubscribes it, never affecting the other clients.
  \<open>message_of\<close> is the JSON-shaped payload of spec section 6 for a build result.
\<close>

datatype message =
    MsgOk generation "module_id list" "(path \<times> string) list"
  | MsgError generation "diagnostic list"

record bridge =
  clients :: "client_id list"
  inbox :: "client_id \<Rightarrow> message list"

definition init_bridge :: bridge where
  "init_bridge = \<lparr>clients = [], inbox = (\<lambda>_. [])\<rparr>"

definition message_of :: "build_result \<Rightarrow> message" where
  "message_of r =
     (case res_outcome r of
        Success arts changed \<Rightarrow>
          MsgOk (res_gen r) changed (map (\<lambda>(p, a). (p, content_hash a)) arts)
      | Failure ds \<Rightarrow> MsgError (res_gen r) ds)"

definition subscribe :: "client_id \<Rightarrow> bridge \<Rightarrow> bridge" where
  "subscribe cid b =
     (if cid \<in> set (clients b) then b
      else b\<lparr>clients := clients b @ [cid], inbox := (inbox b)(cid := [])\<rparr>)"

definition unsubscribe :: "client_id \<Rightarrow> bridge \<Rightarrow> bridge" where
  "unsubscribe cid b = b\<lparr>clients := removeAll cid (clients b)\<rparr>"

text \<open>The delivery loop: \<open>broken\<close> are the clients whose delivery fails.\<close>

primrec deliver_each :: "message \<Rightarrow> client_id list \<Rightarrow> client_id list \<Rightarrow> bridge \<Rightarrow> bridge" where
  "deliver_each m broken [] b = b"
| "deliver_each m broken (c # cs) b =
     deliver_each m broken cs
       (if c \<in> set broken then unsubscribe c b
        else b\<lparr>inbox := (inbox b)(c := inbox b c @ [m])\<rparr>)"

definition broadcast :: "message \<Rightarrow> client_id list \<Rightarrow> bridge \<Rightarrow> bridge" where
  "broadcast m broken b = deliver_each m broken (clients b) b"

text \<open>
  The contract of a broadcast, stated without the loop: the clients whose
  delivery fails are unsubscribed, every other subscriber receives the message
  once, appended to its channel, and nobody else receives anything.
\<close>

definition broadcast_spec :: "message \<Rightarrow> client_id list \<Rightarrow> bridge \<Rightarrow> bridge" where
  "broadcast_spec m broken b =
     b\<lparr>clients := filter (\<lambda>c. c \<notin> set broken) (clients b),
       inbox := (\<lambda>c. if c \<in> set (clients b) \<and> c \<notin> set broken then inbox b c @ [m]
                    else inbox b c)\<rparr>"

definition msg_gen :: "message \<Rightarrow> generation" where
  "msg_gen m = (case m of MsgOk g _ _ \<Rightarrow> g | MsgError g _ \<Rightarrow> g)"

declare msg_gen_def [plugin_defs]

declare init_bridge_def [plugin_defs] message_of_def [plugin_defs] subscribe_def [plugin_defs]
  unsubscribe_def [plugin_defs] broadcast_def [plugin_defs]

subsection \<open>The delivery loop against its contract\<close>

lemma bridge_update_cong:
  "X = X' \<Longrightarrow> Y = Y' \<Longrightarrow> b\<lparr>clients := X, inbox := Y\<rparr> = b\<lparr>clients := X', inbox := Y'\<rparr>"
  by simp

lemma deliver_each_eq:
  "distinct cs \<Longrightarrow> deliver_each m broken cs b =
     b\<lparr>clients := filter (\<lambda>c. c \<notin> set cs \<or> c \<notin> set broken) (clients b),
       inbox := (\<lambda>c. if c \<in> set cs \<and> c \<notin> set broken then inbox b c @ [m] else inbox b c)\<rparr>"
proof (induction cs arbitrary: b)
  case Nil
  then show ?case by simp
next
  case (Cons c cs)
  then show ?case
    by (auto simp: unsubscribe_def removeAll_filter_not_eq fun_eq_iff
        intro!: bridge_update_cong filter_cong)
qed

lemma broadcast_distinct:
  "distinct (clients b) \<Longrightarrow> broadcast m broken b =
     b\<lparr>clients := filter (\<lambda>c. c \<notin> set broken) (clients b),
       inbox := (\<lambda>c. if c \<in> set (clients b) \<and> c \<notin> set broken then inbox b c @ [m]
                    else inbox b c)\<rparr>"
  by (simp add: broadcast_def deliver_each_eq cong: filter_cong)

lemma msg_gen_message_of [simp]: "msg_gen (message_of r) = res_gen r"
  by (simp add: msg_gen_def message_of_def split: outcome.split)

text \<open>
  The delivery loop implements the broadcast contract: on a subscriber
  list without duplicates, walking the clients one by one and unsubscribing
  each failed one gives exactly \<open>broadcast_spec\<close>.
\<close>

lemma broadcast_eq_spec:
  "distinct (clients b) \<Longrightarrow> broadcast m broken b = broadcast_spec m broken b"
  by (simp add: broadcast_distinct broadcast_spec_def)

text \<open>
  Per-client delivery isolation: a subscriber whose delivery succeeds
  receives the message exactly once, appended to what it already had, and stays
  subscribed, whatever happens to the other clients' deliveries.
\<close>

lemma broadcast_isolation:
  assumes "distinct (clients b)" and "c \<in> set (clients b)" and "c \<notin> set broken"
  shows "inbox (broadcast m broken b) c = inbox b c @ [m] \<and> c \<in> set (clients (broadcast m broken b))"
  using assms by (simp add: broadcast_distinct)

text \<open>
  A client whose delivery fails is unsubscribed and receives nothing;
  the broadcast raises nothing (it is a total function).
\<close>

lemma broadcast_drops_broken:
  assumes "distinct (clients b)" and "c \<in> set broken"
  shows "c \<notin> set (clients (broadcast m broken b)) \<and> inbox (broadcast m broken b) c = inbox b c"
  using assms by (simp add: broadcast_distinct)

text \<open>
  No backlog is replayed: a newly subscribed client starts with an empty
  channel, and after the next broadcast it holds that one message only.
\<close>

lemma subscribe_no_backlog:
  assumes "distinct (clients b)" and "cid \<notin> set (clients b)" and "cid \<notin> set broken"
  shows "inbox (subscribe cid b) cid = []"
    and "inbox (broadcast m broken (subscribe cid b)) cid = [m]"
  using assms by (simp_all add: subscribe_def broadcast_distinct)

end
