(* ===== verification/Plugin.thy ===== *)
theory Plugin
  imports RequestGate UpdateBridge
begin

text \<open>
  The plugin as one system: the Build Coordinator, the Request Gate and the
  Update Bridge composed as the spec's control flow prescribes.  One event is
  one atomic step (the single-writer discipline of spec section 5): a
  completed build updates state and store, then releases the held requests,
  then broadcasts, all in the same step, so no observer sees a notification
  before the swap it describes.  \<open>results\<close> is the sequence of build results
  fanned out so far, the history against which the invariants are stated.
\<close>

record plugin =
  options :: plugin_options
  coord :: coordinator
  gate :: gate
  bridge :: bridge
  results :: "build_result list"

datatype event =
    EvStart
  | EvStop
  | EvBuildBegin
  | EvBuildEnd time_ms "diagnostic list" module_snapshot "(path \<times> artifact) list" "client_id list"
  | EvRequest time_ms request_id string
  | EvTick time_ms
  | EvClose request_id
  | EvSubscribe client_id
  | EvUnsubscribe client_id

text \<open>
  The instance \<open>app.register(fastifyWebpack, options)\<close> creates: the options it
  was given, an idle coordinator, no held request, no subscriber, no result.
\<close>

definition init_plugin :: "plugin_options \<Rightarrow> plugin" where
  "init_plugin opts =
     \<lparr>options = opts, coord = init_coordinator, gate = init_gate, bridge = init_bridge,
      results = []\<rparr>"

definition fan_out :: "build_result \<Rightarrow> client_id list \<Rightarrow> plugin \<Rightarrow> plugin" where
  "fan_out r broken s =
     s\<lparr>gate := release_pending (coord s) (gate s),
       bridge := broadcast (message_of r) broken (bridge s),
       results := results s @ [r]\<rparr>"

fun plugin_step :: "plugin \<Rightarrow> event \<Rightarrow> coord_error + plugin" where
  "plugin_step s EvStart =
     (case start (compiler (options s)) (coord s) of
        Inl e \<Rightarrow> Inl e
      | Inr c \<Rightarrow> Inr (s\<lparr>coord := c\<rparr>))"
| "plugin_step s EvStop = Inr (s\<lparr>coord := stop (coord s)\<rparr>)"
| "plugin_step s EvBuildBegin = Inr (s\<lparr>coord := on_build_begin (coord s)\<rparr>)"
| "plugin_step s (EvBuildEnd now errs mods arts broken) =
     (case on_build_end now errs mods arts (coord s) of
        (c, None) \<Rightarrow> Inr (s\<lparr>coord := c\<rparr>)
      | (c, Some r) \<Rightarrow> Inr (fan_out r broken (s\<lparr>coord := c\<rparr>)))"
| "plugin_step s (EvRequest now rid raw) =
     Inr (s\<lparr>gate := gate_request (options s) (coord s) now rid raw (gate s)\<rparr>)"
| "plugin_step s (EvTick now) = Inr (s\<lparr>gate := expire now (gate s)\<rparr>)"
| "plugin_step s (EvClose rid) = Inr (s\<lparr>gate := cancel rid (gate s)\<rparr>)"
| "plugin_step s (EvSubscribe cid) = Inr (s\<lparr>bridge := subscribe cid (bridge s)\<rparr>)"
| "plugin_step s (EvUnsubscribe cid) = Inr (s\<lparr>bridge := unsubscribe cid (bridge s)\<rparr>)"

inductive reach :: "plugin \<Rightarrow> bool" where
  reach_init: "reach (init_plugin opts)"
| reach_step: "reach s \<Longrightarrow> plugin_step s e = Inr s' \<Longrightarrow> reach s'"

declare init_plugin_def [plugin_defs] fan_out_def [plugin_defs]

text \<open>
  A sequence of events run in order; an event the plugin refuses (a failed
  start, whose error goes back to the caller) leaves the state as it was.
\<close>

fun exec_events :: "plugin \<Rightarrow> event list \<Rightarrow> plugin" where
  "exec_events s [] = s"
| "exec_events s (e # es) =
     exec_events (case plugin_step s e of Inl _ \<Rightarrow> s | Inr s' \<Rightarrow> s') es"

subsection \<open>The store the history determines\<close>

definition is_success :: "build_result \<Rightarrow> bool" where
  "is_success r = (case res_outcome r of Success _ _ \<Rightarrow> True | Failure _ \<Rightarrow> False)"

definition artifacts_of :: "outcome \<Rightarrow> (path \<times> artifact) list" where
  "artifacts_of oc = (case oc of Success arts _ \<Rightarrow> arts | Failure _ \<Rightarrow> [])"

definition last_success :: "build_result list \<Rightarrow> build_result option" where
  "last_success rs = find is_success (rev rs)"

definition latest_store :: "build_result list \<Rightarrow> store" where
  "latest_store rs =
     (case last_success rs of
        None \<Rightarrow> empty_store
      | Some r \<Rightarrow> \<lparr>store_gen = res_gen r, store_files = artifacts_of (res_outcome r)\<rparr>)"

subsection \<open>Invariants of the three components\<close>

definition coord_inv :: "coordinator \<Rightarrow> build_result list \<Rightarrow> bool" where
  "coord_inv c rs \<longleftrightarrow>
     (watching c \<longleftrightarrow> bstate c \<noteq> Idle) \<and>
     store c = latest_store rs \<and>
     sorted_wrt (<) (map res_gen rs) \<and>
     (\<forall>r\<in>set rs. res_gen r \<le> generation c) \<and>
     (bstate c = Compiling \<longrightarrow> (\<forall>r\<in>set rs. res_gen r < generation c)) \<and>
     (bstate c = Valid \<longrightarrow> rs \<noteq> [] \<and> res_gen (last rs) = generation c \<and> is_success (last rs)) \<and>
     (bstate c = Invalid \<longrightarrow> rs \<noteq> [] \<and> res_gen (last rs) = generation c \<and>
        res_outcome (last rs) = Failure (snd (diagnostics c)) \<and> fst (diagnostics c) = generation c)"

definition gate_inv :: "coordinator \<Rightarrow> build_result list \<Rightarrow> gate \<Rightarrow> bool" where
  "gate_inv c rs gt \<longleftrightarrow>
     (pending gt \<noteq> [] \<longrightarrow> bstate c = Compiling \<or> bstate c = Idle) \<and>
     (\<forall>p\<in>set (pending gt).
        registered_gen p \<le> generation c \<and> (\<forall>r\<in>set rs. res_gen r \<le> registered_gen p))"

definition bridge_inv :: "build_result list \<Rightarrow> bridge \<Rightarrow> bool" where
  "bridge_inv rs b \<longleftrightarrow>
     distinct (clients b) \<and> (\<forall>c\<in>set (clients b). suffix (inbox b c) (map message_of rs))"

definition plugin_inv :: "plugin \<Rightarrow> bool" where
  "plugin_inv s \<longleftrightarrow>
     coord_inv (coord s) (results s) \<and> gate_inv (coord s) (results s) (gate s) \<and>
     bridge_inv (results s) (bridge s)"

fun_cases plugin_step_BuildEnd: "plugin_step s (EvBuildEnd now errs mods arts broken) = Inr s'"

lemma last_success_snoc [simp]:
  "last_success (rs @ [r]) = (if is_success r then Some r else last_success rs)"
  by (simp add: last_success_def)

lemma latest_store_Nil [simp]: "latest_store [] = empty_store"
  by (simp add: latest_store_def last_success_def)

lemma reach_exec_events: "reach s \<Longrightarrow> reach (exec_events s es)"
proof (induction es arbitrary: s)
  case Nil
  then show ?case by simp
next
  case (Cons e es)
  show ?case
  proof (cases "plugin_step s e")
    case (Inl err)
    with Cons show ?thesis by simp
  next
    case (Inr s')
    with Cons.prems have "reach s'" by (rule reach_step)
    with Inr show ?thesis by (simp add: Cons.IH)
  qed
qed

lemma reach_exec_init: "reach (exec_events (init_plugin opts) es)"
  by (rule reach_exec_events [OF reach_init])

lemma plugin_inv_init: "plugin_inv (init_plugin opts)"
  by (simp add: plugin_inv_def coord_inv_def gate_inv_def bridge_inv_def init_plugin_def
      init_coordinator_def init_gate_def init_bridge_def)

subsection \<open>Each operation keeps its component's invariant\<close>

lemma latest_store_snoc_success:
  "is_success r \<Longrightarrow>
   latest_store (rs @ [r]) = \<lparr>store_gen = res_gen r, store_files = artifacts_of (res_outcome r)\<rparr>"
  by (simp add: latest_store_def)

lemma latest_store_snoc_failure:
  "\<not> is_success r \<Longrightarrow> latest_store (rs @ [r]) = latest_store rs"
  by (simp add: latest_store_def)

lemma coord_inv_start:
  "coord_inv c rs \<Longrightarrow> start cfg c = Inr c' \<Longrightarrow> coord_inv c' rs"
  by (fastforce simp: coord_inv_def start_def split: if_splits)

lemma coord_inv_stop: "coord_inv c rs \<Longrightarrow> coord_inv (stop c) rs"
  by (simp add: coord_inv_def stop_def)

lemma coord_inv_begin: "coord_inv c rs \<Longrightarrow> coord_inv (on_build_begin c) rs"
  by (fastforce simp: coord_inv_def on_build_begin_def)

lemma coord_inv_end_None:
  "on_build_end now errs mods arts c = (c', None) \<Longrightarrow> c' = c"
  by (simp add: on_build_end_def split: if_splits)

lemma coord_inv_end_Some:
  assumes "coord_inv c rs" and "on_build_end now errs mods arts c = (c', Some r)"
  shows "coord_inv c' (rs @ [r])"
proof -
  from assms(2) have w: "watching c" and comp: "bstate c = Compiling"
    by (auto simp: on_build_end_def split: if_splits)
  with assms(1) have lt: "\<forall>x\<in>set rs. res_gen x < generation c"
    by (simp add: coord_inv_def)
  show ?thesis
  proof (cases "errs = []")
    case True
    with assms(2) w comp have "c' = c\<lparr>bstate := Valid, store := swap (generation c) arts (store c),
        prev_modules := mods\<rparr>" and "res_gen r = generation c" and "is_success r"
        and "artifacts_of (res_outcome r) = arts"
      by (auto simp: on_build_end_def is_success_def artifacts_of_def)
    with assms(1) lt comp show ?thesis
      by (simp add: coord_inv_def latest_store_snoc_success swap_def)
  next
    case False
    with assms(2) w comp have "c' = c\<lparr>bstate := Invalid, diagnostics := (generation c, errs)\<rparr>"
        and "r = \<lparr>res_gen = generation c, res_outcome = Failure errs, res_time = now\<rparr>"
      by (auto simp: on_build_end_def)
    with assms(1) lt comp show ?thesis
      by (simp add: coord_inv_def latest_store_snoc_failure is_success_def)
  qed
qed

lemma gate_inv_coord_change:
  "gate_inv c rs gt \<Longrightarrow> generation c \<le> generation c' \<Longrightarrow>
   (pending gt \<noteq> [] \<longrightarrow> bstate c' = Compiling \<or> bstate c' = Idle) \<Longrightarrow> gate_inv c' rs gt"
  by (fastforce simp: gate_inv_def)

lemma gate_inv_start:
  "gate_inv c rs gt \<Longrightarrow> start cfg c = Inr c' \<Longrightarrow> gate_inv c' rs gt"
  by (rule gate_inv_coord_change) (auto simp: start_def gate_inv_def split: if_splits)

lemma gate_inv_stop: "gate_inv c rs gt \<Longrightarrow> gate_inv (stop c) rs gt"
  by (rule gate_inv_coord_change) (auto simp: stop_def gate_inv_def)

lemma gate_inv_begin: "gate_inv c rs gt \<Longrightarrow> gate_inv (on_build_begin c) rs gt"
  by (rule gate_inv_coord_change) (auto simp: on_build_begin_def gate_inv_def)

lemma gate_inv_release: "gate_inv c rs (release_pending c0 gt)"
  by (simp add: gate_inv_def release_pending_def)

lemma gate_inv_request:
  assumes "gate_inv c rs gt" and "coord_inv c rs"
  shows "gate_inv c rs (gate_request opts c now rid raw gt)"
  using assms
  by (cases "bstate c")
     (auto simp: gate_inv_def coord_inv_def gate_request_def handle_def Let_def
      split: option.splits if_splits)

lemma gate_inv_expire: "gate_inv c rs gt \<Longrightarrow> gate_inv c rs (expire now gt)"
  by (auto simp: gate_inv_def expire_def filter_empty_conv)

lemma gate_inv_cancel: "gate_inv c rs gt \<Longrightarrow> gate_inv c rs (cancel rid gt)"
  by (auto simp: gate_inv_def cancel_def filter_empty_conv)

lemma bridge_inv_broadcast:
  assumes "bridge_inv rs b"
  shows "bridge_inv (rs @ [r]) (broadcast (message_of r) broken b)"
  using assms by (auto simp: bridge_inv_def broadcast_def deliver_each_eq)

lemma bridge_inv_subscribe: "bridge_inv rs b \<Longrightarrow> bridge_inv rs (subscribe cid b)"
  by (auto simp: bridge_inv_def subscribe_def)

lemma bridge_inv_unsubscribe: "bridge_inv rs b \<Longrightarrow> bridge_inv rs (unsubscribe cid b)"
  by (auto simp: bridge_inv_def unsubscribe_def distinct_removeAll)

lemmas plugin_inv_steps =
  coord_inv_start coord_inv_stop coord_inv_begin coord_inv_end_Some
  gate_inv_start gate_inv_stop gate_inv_begin gate_inv_release gate_inv_request
  gate_inv_expire gate_inv_cancel
  bridge_inv_broadcast bridge_inv_subscribe bridge_inv_unsubscribe

lemma plugin_step_inv:
  assumes "plugin_inv s" and "plugin_step s e = Inr s'"
  shows "plugin_inv s'"
proof (cases e)
  case (EvBuildEnd now errs mods arts broken)
  show ?thesis
  proof (cases "on_build_end now errs mods arts (coord s)")
    case (Pair c' ro)
    show ?thesis
    proof (cases ro)
      case None
      with Pair assms EvBuildEnd show ?thesis
        by (auto dest: coord_inv_end_None)
    next
      case (Some r)
      with Pair assms EvBuildEnd show ?thesis
        by (auto simp: plugin_inv_def fan_out_def intro: plugin_inv_steps)
    qed
  qed
qed (use assms in \<open>auto simp: plugin_inv_def intro: plugin_inv_steps split: sum.splits\<close>)

lemma reach_plugin_inv: "reach s \<Longrightarrow> plugin_inv s"
proof (induction rule: reach.induct)
  case reach_init
  show ?case by (rule plugin_inv_init)
next
  case (reach_step s e s')
  then show ?case by (blast intro: plugin_step_inv)
qed

end
