(* ===== verification/ExampleServer.thy ===== *)
theory ExampleServer
  imports Plugin
begin

text \<open>
  The example server, \<open>src/examples/webpack/server/server.ts\<close>: \<open>main\<close>
  creates a fastify app, registers the plugin with the example's compiler,
  adds the \<open>GET /\<close> route whose reply is the HTML page that loads the bundle,
  and listens on port 8080.  The app's state is the registered plugin
  instance, the route table and the port; fastify's errors on a duplicated
  route and on a port out of range are values of \<open>app_error\<close>.  A request
  goes first through the plugin's request hook; a path the plugin does not
  serve (its 404) goes on to the app's routes.  \<open>app_event\<close> feeds the
  plugin's events (compiler signals, clients, ticks) to the registered
  instance.
\<close>

datatype reply = Reply string string

datatype app_error = DuplicatedRoute string | BadPort nat

record app =
  app_plugin :: "plugin option"
  app_routes :: "(string \<times> reply) list"
  listen_port :: "16 word option"

datatype app_answer =
    FromPlugin response
  | HeldByPlugin
  | FromRoute reply
  | NoRoute

definition fastify_new :: app where
  "fastify_new = \<lparr>app_plugin = None, app_routes = [], listen_port = None\<rparr>"

definition example_options :: "string \<Rightarrow> plugin_options" where
  "example_options dir =
     \<lparr>compiler = example_config dir, hold_policy_opt = None, request_timeout_opt = None,
      entry_fallback_opt = None\<rparr>"

definition app_register :: "plugin_options \<Rightarrow> app \<Rightarrow> app" where
  "app_register opts a = a\<lparr>app_plugin := Some (init_plugin opts)\<rparr>"

definition app_get :: "string \<Rightarrow> reply \<Rightarrow> app \<Rightarrow> app_error + app" where
  "app_get p r a =
     (if p \<in> fst ` set (app_routes a) then Inl (DuplicatedRoute p)
      else Inr (a\<lparr>app_routes := app_routes a @ [(p, r)]\<rparr>))"

definition app_listen :: "nat \<Rightarrow> app \<Rightarrow> app_error + app" where
  "app_listen port a =
     (if port < 2 ^ 16 then Inr (a\<lparr>listen_port := Some (word_of_nat port)\<rparr>) else Inl (BadPort port))"

text \<open>The page of the \<open>GET /\<close> route: the template literal, line by line.\<close>

definition dq :: string where
  "dq = [CHR 0x22]"

definition index_html :: string where
  "index_html =
     concat (map (\<lambda>l. l @ [CHR 0x0A])
       [[],
        ''      <!DOCTYPE html>'',
        ''      <html lang='' @ dq @ ''en'' @ dq @ ''>'',
        ''        <head>'',
        ''        <link rel='' @ dq @ ''icon'' @ dq @ '' href='' @ dq @ ''data:;base64,iVBORw0KGgo=''
           @ dq @ '' />'',
        ''        <script defer='' @ dq @ ''defer'' @ dq @ '' src='' @ dq @ ''/main.js'' @ dq
           @ ''></script>'',
        ''        </head>'',
        ''        <body>'',
        ''          <div id='' @ [CHR 0x27] @ ''app'' @ [CHR 0x27] @ ''></div>'',
        ''        </body>'',
        ''      </html>    ''])
     @ ''    ''"

definition index_reply :: reply where
  "index_reply = Reply ''text/html'' index_html"

definition main :: "string \<Rightarrow> app_error + app" where
  "main dir =
     (case app_get ''/'' index_reply (app_register (example_options dir) fastify_new) of
        Inl e \<Rightarrow> Inl e
      | Inr a \<Rightarrow> app_listen 8080 a)"

text \<open>A request: the plugin's hook first, then the route table.\<close>

definition route_of :: "app \<Rightarrow> string \<Rightarrow> app_answer" where
  "route_of a raw =
     (case map_of (app_routes a) (takeWhile (\<lambda>ch. ch \<noteq> CHR ''?'') raw) of
        Some r \<Rightarrow> FromRoute r
      | None \<Rightarrow> NoRoute)"

definition app_dispatch :: "app \<Rightarrow> string \<Rightarrow> app_answer" where
  "app_dispatch a raw =
     (case app_plugin a of
        None \<Rightarrow> route_of a raw
      | Some s \<Rightarrow>
          (case handle (options s) (coord s) (normalize_path (options s) (store (coord s)) raw) of
             None \<Rightarrow> HeldByPlugin
           | Some NotFound404 \<Rightarrow> route_of a raw
           | Some r \<Rightarrow> FromPlugin r))"

definition app_event :: "event \<Rightarrow> app \<Rightarrow> app" where
  "app_event e a =
     (case app_plugin a of
        None \<Rightarrow> a
      | Some s \<Rightarrow> (case plugin_step s e of Inl _ \<Rightarrow> a | Inr s' \<Rightarrow> a\<lparr>app_plugin := Some s'\<rparr>))"

fun app_run :: "event list \<Rightarrow> app \<Rightarrow> app" where
  "app_run [] a = a"
| "app_run (e # es) a = app_run es (app_event e a)"

text \<open>
  \<open>void main()\<close>: the process runs \<open>main\<close>; when it has set the server up,
  the app then lives through the events that reach it.  A failure of \<open>main\<close>
  (a rejected promise nobody awaits) leaves no server.
\<close>

definition server_process :: "string \<Rightarrow> event list \<Rightarrow> app_error + app" where
  "server_process dir evs = (case main dir of Inl e \<Rightarrow> Inl e | Inr a \<Rightarrow> Inr (app_run evs a))"

text \<open>A run of the example server: watch mode starts and the first build succeeds.\<close>

definition demo_app_events :: "event list" where
  "demo_app_events =
     [EvStart, EvBuildEnd 20 [] [(''./app/main.ts'', ''m1'')] [(''/main.js'', demo_bundle)] []]"

declare fastify_new_def [plugin_defs] example_options_def [plugin_defs] app_register_def [plugin_defs]
  app_get_def [plugin_defs] app_listen_def [plugin_defs] index_reply_def [plugin_defs]
  main_def [plugin_defs] route_of_def [plugin_defs] app_dispatch_def [plugin_defs]
  app_event_def [plugin_defs]

subsection \<open>The example's compiler and page\<close>

lemma example_config_fields [simp]:
  "entry (example_config dir) = example_entry dir"
  "rules (example_config dir) = [ts_rule]"
  "output_cfg (example_config dir) = example_output dir"
  "devtool (example_config dir) = ''source-map''"
  "mode (example_config dir) = ''development''"
  by (simp_all add: example_config_def)

lemma example_out_path: "out_path (example_output dir) = ''/dist''"
  by (simp add: example_output_def path_resolve_def is_absolute_def split_slash_def join_slash_def)

lemma example_compiler_valid [simp]: "compiler_valid (example_config dir)"
  by (simp add: compiler_valid_def example_entry_def example_out_path is_absolute_def)

lemma example_emitted_keys: "emitted_keys (example_config dir) = [''/main.js'', ''/main.js.map'']"
  by (simp add: emitted_keys_def example_output_def)

lemma example_plugin_starts:
  "\<exists>s. plugin_step (init_plugin (example_options dir)) EvStart = Inr s \<and>
       bstate (coord s) = Compiling \<and> generation (coord s) = 1"
  by (simp add: example_options_def init_plugin_def start_def init_coordinator_def)

text \<open>
  C6: the module rule gives \<open>ts-loader\<close> (transpile only) to the
  application entry \<open>../app/main.ts\<close> exactly when its resolved path does not
  lie under a \<open>node_modules\<close> directory, and no loader to the client entry
  \<open>../../../dist/client.js\<close>, wherever the server runs from.
\<close>

theorem example_entry_loaders:
  "loaders_for (example_config dir) (path_resolve dir ''../../../dist/client.js'') = [] \<and>
   loaders_for (example_config dir) (path_resolve dir ''../app/main.ts'') =
     (if node_modules_exclude (path_resolve dir ''../app/main.ts'') then [] else [ts_loader_use])"
proof -
  obtain pre where c: "path_resolve dir ''../../../dist/client.js'' = pre @ ''/'' @ ''client.js''"
    using path_resolve_last_segment [of "''../../../dist/client.js''" "[''..'', ''..'', ''..'', ''dist'']"]
    by (auto simp: is_absolute_def split_slash_def)
  then have "ends_with ''.js'' (path_resolve dir ''../../../dist/client.js'')"
    by (auto simp: ends_with_iff)
  then have cl: "loaders_for (example_config dir) (path_resolve dir ''../../../dist/client.js'') = []"
    by (simp add: loaders_for_def rule_applies_def ts_rule_def ends_with_js_not_ts)
  obtain pre' where m: "path_resolve dir ''../app/main.ts'' = pre' @ ''/'' @ ''main.ts''"
    using path_resolve_last_segment [of "''../app/main.ts''" "[''..'', ''app'']"]
    by (auto simp: is_absolute_def split_slash_def)
  then have "tsx_test (path_resolve dir ''../app/main.ts'')"
    by (auto simp: tsx_test_def ends_with_iff)
  with cl show ?thesis
    by (simp add: loaders_for_def rule_applies_def ts_rule_def)
qed

theorem example_entry_loaders_witness:
  "\<not> node_modules_exclude (path_resolve ''/repo/examples/webpack/server'' ''../app/main.ts'') \<and>
   path_resolve ''/repo/examples/webpack/server'' ''../app/main.ts'' = ''/repo/examples/webpack/app/main.ts'' \<and>
   loaders_for (example_config ''/repo/examples/webpack/server'')
     (path_resolve ''/repo/examples/webpack/server'' ''../app/main.ts'') = [ts_loader_use]"
proof -
  have p: "path_resolve ''/repo/examples/webpack/server'' ''../app/main.ts'' = ''/repo/examples/webpack/app/main.ts''"
    by (simp add: path_resolve_def is_absolute_def split_slash_def join_slash_def)
  have nm: "\<not> node_modules_exclude (path_resolve ''/repo/examples/webpack/server'' ''../app/main.ts'')"
    by (simp add: p node_modules_exclude_def)
  from example_entry_loaders [of "''/repo/examples/webpack/server''"] nm p show ?thesis by simp
qed

subsection \<open>The server \<open>main\<close> builds, at run time\<close>

lemma main_eq:
  "main dir = Inr \<lparr>app_plugin = Some (init_plugin (example_options dir)),
                   app_routes = [(''/'', index_reply)], listen_port = Some 8080\<rparr>"
  by (simp add: main_def app_get_def app_register_def fastify_new_def app_listen_def)

lemma plugin_step_options:
  "plugin_step s e = Inr s' \<Longrightarrow> options s' = options s"
  by (cases e) (auto simp: fan_out_def split: sum.splits prod.splits option.splits)

lemma app_run_plugin:
  assumes "app_plugin a = Some s" and "reach s"
  shows "\<exists>s'. app_plugin (app_run evs a) = Some s' \<and> reach s' \<and> options s' = options s \<and>
              app_routes (app_run evs a) = app_routes a"
  using assms
proof (induction evs arbitrary: a s)
  case Nil
  then show ?case by simp
next
  case (Cons e evs)
  show ?case
  proof (cases "plugin_step s e")
    case (Inl err)
    with Cons show ?thesis by (simp add: app_event_def)
  next
    case (Inr s1)
    with Cons.prems have "reach s1" by (blast intro: reach_step)
    moreover from Inr have "options s1 = options s" by (rule plugin_step_options)
    moreover from Inr Cons.prems(1)
    have "app_event e a = a\<lparr>app_plugin := Some s1\<rparr>" by (simp add: app_event_def)
    ultimately show ?thesis
      using Cons.IH [of "a\<lparr>app_plugin := Some s1\<rparr>" s1] by auto
  qed
qed

text \<open>
  At every moment of the server's life the plugin instance \<open>main\<close>
  registered is a reachable state of the plugin, still configured with the
  example's options, and the routes are those \<open>main\<close> added: every invariant
  of the plugin holds for the example server.
\<close>

theorem main_runs_reachable:
  assumes "main dir = Inr a"
  shows "\<exists>s. app_plugin (app_run evs a) = Some s \<and> reach s \<and> options s = example_options dir \<and>
             app_routes (app_run evs a) = [(''/'', index_reply)]"
proof -
  from assms main_eq [of dir]
  have "app_plugin a = Some (init_plugin (example_options dir))" and "app_routes a = [(''/'', index_reply)]"
    by auto
  with app_run_plugin [of a "init_plugin (example_options dir)" evs] reach_init
  show ?thesis by (auto simp: init_plugin_def)
qed

theorem main_runs_reachable_witness:
  "main ''/repo/examples/webpack/server'' =
     Inr \<lparr>app_plugin = Some (init_plugin (example_options ''/repo/examples/webpack/server'')),
          app_routes = [(''/'', index_reply)], listen_port = Some 8080\<rparr> \<and>
   (\<exists>s. app_plugin (app_run [EvStart, EvSubscribe 1]
          \<lparr>app_plugin = Some (init_plugin (example_options ''/repo/examples/webpack/server'')),
           app_routes = [(''/'', index_reply)], listen_port = Some 8080\<rparr>) = Some s \<and>
        reach s \<and> options s = example_options ''/repo/examples/webpack/server'')"
  using main_runs_reachable [OF main_eq [of "''/repo/examples/webpack/server''"], of "[EvStart, EvSubscribe 1]"]
    main_eq [of "''/repo/examples/webpack/server''"]
  by blast

text \<open>
  C8: how the example server answers, at every moment of its life after
  \<open>void main()\<close>, whatever events reached it.  Until
  a build has resolved (Idle or compiling) every request is held, the page
  route too, since the example passes no policy and the default hold applies.
  After a failed build every request, the page too, gets the build error.
  After a successful build a path of the store is served from memory by the
  plugin; \<open>/\<close>, when the store has neither it nor \<open>/index.html\<close>, reaches the
  app's route and gets the HTML page; and any other path the store lacks has no
  route.
\<close>

theorem example_dispatch:
  assumes "server_process dir evs = Inr a" and "app_plugin a = Some s"
  shows "(bstate (coord s) \<noteq> Valid \<and> bstate (coord s) \<noteq> Invalid \<longrightarrow>
            app_dispatch a raw = HeldByPlugin) \<and>
         (bstate (coord s) = Invalid \<longrightarrow>
            app_dispatch a raw =
              FromPlugin (BuildError (fst (diagnostics (coord s))) (snd (diagnostics (coord s))))) \<and>
         (bstate (coord s) = Valid \<and> get (store (coord s)) ''/'' = None \<and>
          get (store (coord s)) ''/index.html'' = None \<longrightarrow>
            app_dispatch a ''/'' = FromRoute index_reply) \<and>
         (bstate (coord s) = Valid \<and> get (store (coord s)) k = Some art \<and>
          CHR ''?'' \<notin> set k \<and> k \<noteq> ''/'' \<longrightarrow>
            app_dispatch a k =
              FromPlugin (Ok200 (content art) (content_type art) (content_hash art)
                (store_gen (store (coord s))))) \<and>
         (bstate (coord s) = Valid \<and> get (store (coord s)) k = None \<and>
          CHR ''?'' \<notin> set k \<and> k \<noteq> ''/'' \<longrightarrow>
            app_dispatch a k = NoRoute)"
proof -
  let ?a0 = "\<lparr>app_plugin = Some (init_plugin (example_options dir)),
      app_routes = [(''/'', index_reply)], listen_port = Some 8080\<rparr>"
  from assms(1) main_eq [of dir] have a: "a = app_run evs ?a0"
    by (simp add: server_process_def)
  from app_run_plugin [of ?a0 "init_plugin (example_options dir)" evs] a assms(2) reach_init
  have o: "options s = example_options dir" and r: "app_routes a = [(''/'', index_reply)]"
    by (auto simp: init_plugin_def)
  have held: "bstate (coord s) \<noteq> Valid \<and> bstate (coord s) \<noteq> Invalid \<longrightarrow>
      app_dispatch a raw = HeldByPlugin"
    using assms(2) o by (simp add: app_dispatch_def handle_def policy_of_def example_options_def)
  have err: "bstate (coord s) = Invalid \<longrightarrow> app_dispatch a raw =
      FromPlugin (BuildError (fst (diagnostics (coord s))) (snd (diagnostics (coord s))))"
    using assms(2) by (simp add: app_dispatch_def handle_def resolve_def)
  have page: "bstate (coord s) = Valid \<and> get (store (coord s)) ''/'' = None \<and>
      get (store (coord s)) ''/index.html'' = None \<longrightarrow>
      app_dispatch a ''/'' = FromRoute index_reply"
    using assms(2) o r
    by (simp add: app_dispatch_def handle_def resolve_def serve_key_def normalize_path_def
        entry_fallback_of_def example_options_def route_of_def)
  have hit: "bstate (coord s) = Valid \<and> get (store (coord s)) k = Some art \<and>
      CHR ''?'' \<notin> set k \<and> k \<noteq> ''/'' \<longrightarrow>
      app_dispatch a k =
        FromPlugin (Ok200 (content art) (content_type art) (content_hash art) (store_gen (store (coord s))))"
    using assms(2)
    by (simp add: app_dispatch_def handle_def resolve_def serve_key_def normalize_path_def takeWhile_no_sep)
  have miss: "bstate (coord s) = Valid \<and> get (store (coord s)) k = None \<and>
      CHR ''?'' \<notin> set k \<and> k \<noteq> ''/'' \<longrightarrow> app_dispatch a k = NoRoute"
    using assms(2) r
    by (simp add: app_dispatch_def handle_def resolve_def serve_key_def normalize_path_def
        takeWhile_no_sep route_of_def)
  from held err page hit miss show ?thesis by blast
qed

theorem example_dispatch_witness:
  "server_process ''/r'' demo_app_events =
     Inr (app_run demo_app_events \<lparr>app_plugin = Some (init_plugin (example_options ''/r'')),
       app_routes = [(''/'', index_reply)], listen_port = Some 8080\<rparr>) \<and>
   app_dispatch (app_run demo_app_events \<lparr>app_plugin = Some (init_plugin (example_options ''/r'')),
       app_routes = [(''/'', index_reply)], listen_port = Some 8080\<rparr>) ''/'' = FromRoute index_reply \<and>
   app_dispatch (app_run demo_app_events \<lparr>app_plugin = Some (init_plugin (example_options ''/r'')),
       app_routes = [(''/'', index_reply)], listen_port = Some 8080\<rparr>) ''/main.js'' =
     FromPlugin (Ok200 ''console.log(1)'' ''application/javascript'' ''a1'' 1) \<and>
   app_dispatch (app_run demo_app_events \<lparr>app_plugin = Some (init_plugin (example_options ''/r'')),
       app_routes = [(''/'', index_reply)], listen_port = Some 8080\<rparr>) ''/app.css'' = NoRoute"
proof -
  let ?a = "app_run demo_app_events \<lparr>app_plugin = Some (init_plugin (example_options ''/r'')),
             app_routes = [(''/'', index_reply)], listen_port = Some 8080\<rparr>"
  have m: "server_process ''/r'' demo_app_events = Inr ?a"
    by (simp add: server_process_def main_eq)
  have p: "app_plugin ?a = Some (the (app_plugin ?a))"
    by (simp add: demo_app_events_def plugin_defs)
  have v: "bstate (coord (the (app_plugin ?a))) = Valid"
    and st: "store (coord (the (app_plugin ?a))) =
               \<lparr>store_gen = 1, store_files = [(''/main.js'', demo_bundle)]\<rparr>"
    by (simp_all add: demo_app_events_def plugin_defs)
  from example_dispatch [OF m p, of "''/''" "''/main.js''" demo_bundle]
    example_dispatch [OF m p, of "''/''" "''/app.css''" demo_bundle] m v st
  show ?thesis by (simp add: get_def demo_bundle_def)
qed
end
