(* ===== verification/Spec2Isabelle.thy ===== *)
theory Spec2Isabelle
  imports ExampleServer
begin

text \<open>
  \<^bold>\<open>A verification model of fastify-webpack-hot and its example server.\<close>

  The repository ships a Fastify plugin, \<open>fastifyWebpack\<close>, that runs a webpack
  compiler in watch mode, serves its output from memory, holds requests while a
  compile is in flight, and pushes live-reload messages to browsers.  The
  plugin's code is not under \<open>src/\<close>: it is modelled from its specification
  (spec.md), section by section.  The one source file,
  \<open>src/examples/webpack/server/server.ts\<close>, is modelled line by line: it builds
  the webpack configuration, registers the plugin with it, adds the \<open>GET /\<close>
  page and listens on port 8080.

  \<^bold>\<open>Theories and how they correspond to the program.\<close>
  \<^item> \<open>Prelude\<close>: the model's types (paths, generations, client and request ids,
    times in ms), the \<open>plugin_defs\<close> collection of unfolding rules, and shared
    lemmas on lists (sortedness, suffixes, \<open>takeWhile\<close>).
  \<^item> \<open>WebpackConfig\<close>: server.ts lines 11-49.  The configuration is a record
    \<open>webpack_config\<close> with the source's fields; \<open>example_config dir\<close> is the
    literal object with \<open>__dirname\<close> as the parameter \<open>dir\<close>.  \<open>path_resolve\<close>
    models Node's POSIX \<open>path.resolve\<close> (split at '/', normalise '.', '..' and
    empty segments, an absolute argument replaces the directory).  The regexes
    \<open>/node_modules/u\<close> and \<open>/\.tsx?$/u\<close> become \<open>contains_str\<close> and \<open>ends_with\<close>.
    Webpack's meaning of the options is modelled where the example uses it:
    \<open>loaders_for\<close> (rule test and exclude), \<open>resolve_module\<close> (the
    \<open>resolve.extensions\<close> order, without directory or index resolution),
    \<open>emitted_keys\<close> (public path, filename and the source map of \<open>devtool\<close>;
    the hot-update files of the HMR plugin are not modelled) and
    \<open>compiler_valid\<close> (the part of webpack's validation that decides whether
    watch mode can start).
  \<^item> \<open>ArtifactStore\<close> (spec 4.4): a store is one generation's list of
    (key, artifact); \<open>swap\<close> replaces it as a whole value and \<open>get\<close> looks a key up.
  \<^item> \<open>BuildCoordinator\<close> (spec 4.1): the record \<open>coordinator\<close> holds the build
    state (Idle, Compiling, Valid, Invalid), the generation counter, watch mode,
    the number of resource releases, the store, the previous module snapshot
    and the last diagnostics.  \<open>start\<close>, \<open>stop\<close>, \<open>on_build_begin\<close> and
    \<open>on_build_end\<close> are its operations; errors are values of
    \<open>coord_error + coordinator\<close>.
  \<^item> \<open>RequestGate\<close> (spec 4.2, 5): options (\<open>plugin_options\<close>, whose
    \<open>compiler\<close> field is what server.ts lines 51-53 pass), path normalisation,
    \<open>handle\<close> (serve, 404, build error, or hold), the FIFO queue of held
    requests with deadlines, their release, timeout and cancellation.  The
    \<open>responses\<close> log stands for the HTTP replies written.
  \<^item> \<open>UpdateBridge\<close> (spec 4.3, 6): subscribers with one channel each;
    \<open>broadcast\<close> is the per-client delivery loop (\<open>deliver_each\<close>) that
    unsubscribes the clients whose delivery fails.
  \<^item> \<open>Plugin\<close>: the plugin as a record of the three components plus the log of
    build results, one atomic \<open>plugin_step\<close> per event (start, stop, the
    compiler's begin and end signals, a request, a clock tick, a connection
    close, a subscribe or unsubscribe), and the inductive set \<open>reach\<close> of states
    reachable from \<open>init_plugin opts\<close>, the instance that
    \<open>app.register(fastifyWebpack, { compiler })\<close> creates.  A build end updates
    the coordinator, releases held requests (\<open>fan_out\<close>), then broadcasts, in
    that order.
  \<^item> \<open>ExampleServer\<close>: \<open>main\<close> of server.ts (lines 8-75) over a model of the
    Fastify app: \<open>app_register\<close>, \<open>app_get\<close> (fastify's duplicated-route error),
    \<open>app_listen\<close> (Node's port range; the port is kept as a 16-bit word), the page
    \<open>index_html\<close> (the template literal verbatim), and \<open>app_dispatch\<close>: the
    plugin's hook answers first and a 404 of the plugin falls through to the
    app's routes.
  \<^item> \<open>Spec2Isabelle\<close> (this theory): properties that span the components,
    proved over every reachable state or every run of events.

  \<^bold>\<open>What the lemmas show.\<close>
  Invariants (Plugin: \<open>plugin_inv\<close>, preserved by every step and so by every
  reachable state): generations only grow, results are strictly increasing in
  generation, a held request is never older than the results, subscribers are
  distinct and each channel is a suffix of the messages of the results.  On
  top of them: the store is always the latest successful build (C1, and
  \<open>valid_store_is_current\<close>: Valid means the store is current); over any run
  of requests during a compile, the build end answers them all in arrival
  order from the new generation (C2); the hold policy defers (C3) and a held
  request times out exactly at its deadline (\<open>held_request_times_out\<close>); a
  subscriber receives exactly the results after it subscribed (C4); a failed
  build reaches every observer (C5); stop is idempotent
  (\<open>stop_twice_is_stop_once\<close>).  The broadcast loop refines its one-shot
  contract \<open>broadcast_spec\<close> (\<open>broadcast_refines_spec\<close>).

  For the example server: the loaders the rule gives the two entries, for
  every \<open>__dirname\<close> (C6), and where the entries resolve for every normalised
  \<open>__dirname\<close>, \<open>..\<close> stopping at the root (C7); how the running server answers
  in each build state over any run of events: held, build error, the page
  route for \<open>/\<close>, the store for emitted paths, no route otherwise (C8); the
  module rule in terms of its regular expressions (C9, with \<open>contains_str_iff\<close>
  and \<open>tsx_test_iff\<close> relating the string functions to substring and suffix);
  the extensions and the rule together (C10); the resolution order (C11);
  \<open>path.resolve\<close> returns an absolute normal path and is idempotent (C12), and
  resolving in two steps is resolving the joined path (C13).

  \<^bold>\<open>Choices.\<close>
  Every operation is structural recursion or non-recursive, so no fuel is
  needed and all definitions evaluate.  The compiler's work is an input of the
  build-end event (diagnostics, module snapshot, artifacts) and a delivery
  failure is the list of broken clients.  Where the spec is silent the model
  holds requests in Idle as in Compiling, ignores a build end outside a
  compile, gives no deadline when no \<open>requestTimeoutMs\<close> is given, and takes a
  module's identity as its id with its content hash; each is a finding.

  \<^bold>\<open>Not modelled.\<close>
  Webpack's and ts-loader's internals (module graph, transforms, the contents
  they emit), Fastify's request machinery and plugin encapsulation, the
  streaming transport of the update channel, the browser client
  \<open>dist/client.js\<close> (its role is the subscriber) and \<open>app/main.ts\<close> (not in
  the sources), \<open>require.resolve\<close> (abstracted to the package name) and
  logging.
\<close>

subsection \<open>Runs used by the witnesses\<close>

definition demo_held_trace :: "event list" where
  "demo_held_trace = [EvStart, EvSubscribe 1, EvRequest 0 7 ''/main.js?v=1'']"

definition demo_success :: event where
  "demo_success =
     EvBuildEnd 20 [] [(''./app/main.ts'', ''m1'')] [(''/main.js'', demo_bundle)] []"

definition demo_trace :: "event list" where
  "demo_trace = demo_held_trace @ [demo_success]"

definition demo_error :: diagnostic where
  "demo_error = ''Module not found: '' @ [CHR 0x27] @ ''./x'' @ [CHR 0x27]"

definition demo_failure :: event where
  "demo_failure = EvBuildEnd 40 [demo_error] [] [] []"

definition demo_failing_trace :: "event list" where
  "demo_failing_trace = demo_trace @ [EvBuildBegin, EvSubscribe 2, EvRequest 30 8 ''/main.js'', demo_failure]"

text \<open>The events after which a client is still subscribed, when it was before.\<close>

fun keeps_client :: "client_id \<Rightarrow> event \<Rightarrow> bool" where
  "keeps_client cid (EvUnsubscribe c) = (c \<noteq> cid)"
| "keeps_client cid (EvBuildEnd now errs mods arts broken) = (cid \<notin> set broken)"
| "keeps_client cid e = True"

text \<open>Two requests, registered in this order while the first compile is in flight.\<close>

definition demo_requests :: "(time_ms \<times> request_id \<times> string) list" where
  "demo_requests = [(0, 7, ''/main.js?v=1''), (5, 8, ''/app.css'')]"

lemmas demo_defs = demo_held_trace_def demo_success_def demo_trace_def demo_error_def
  demo_failure_def demo_failing_trace_def demo_requests_def

subsection \<open>Facts about single steps of the plugin\<close>

lemma last_success_last:
  "rs \<noteq> [] \<Longrightarrow> is_success (last rs) \<Longrightarrow> last_success rs = Some (last rs)"
  by (cases rs rule: rev_cases) simp_all

lemma build_end_step:
  assumes "coord_inv (coord s) (results s)" and "bstate (coord s) = Compiling"
    and "plugin_step s (EvBuildEnd now errs mods arts broken) = Inr s'"
  shows "\<exists>r. on_build_end now errs mods arts (coord s) = (coord s', Some r) \<and>
           res_gen r = generation (coord s) \<and>
           gate s' = release_pending (coord s') (gate s) \<and>
           bridge s' = broadcast (message_of r) broken (bridge s) \<and>
           results s' = results s @ [r]"
proof -
  from assms(1,2) have "watching (coord s)" by (simp add: coord_inv_def)
  with assms(2) obtain c' r where e: "on_build_end now errs mods arts (coord s) = (c', Some r)"
      and g: "res_gen r = generation (coord s)"
    by (cases "errs = []") (auto simp: on_build_end_def)
  with assms(3) have "s' = fan_out r broken (s\<lparr>coord := c'\<rparr>)" by simp
  with e g show ?thesis by (simp add: fan_out_def)
qed

lemma build_end_not_compiling:
  assumes "bstate (coord s) \<noteq> Compiling"
    and "plugin_step s (EvBuildEnd now errs mods arts broken) = Inr s'"
  shows "s' = s"
  using assms by (simp add: on_build_end_ignored)

text \<open>
  A run of requests while a compile is in flight under the hold policy only
  queues them, in arrival order, each tagged with the compiling generation and
  its own deadline; nothing else of the plugin changes.
\<close>

lemma exec_held_requests:
  assumes "bstate (coord s) = Compiling" and "policy_of (options s) = Hold"
  shows "exec_events s (map (\<lambda>(t, rid, raw). EvRequest t rid raw) rqs) =
     s\<lparr>gate := (gate s)\<lparr>pending := pending (gate s) @
        map (\<lambda>(t, rid, raw). \<lparr>req_id = rid, req_key = normalize_path (options s) (store (coord s)) raw,
              registered_gen = generation (coord s),
              deadline = map_option (\<lambda>d. t + d) (request_timeout_opt (options s))\<rparr>) rqs\<rparr>\<rparr>"
  using assms
proof (induction rqs arbitrary: s)
  case Nil
  then show ?case by simp
next
  case (Cons q rqs)
  obtain t rid raw where q: "q = (t, rid, raw)" by (cases q)
  have "handle (options s) (coord s) (normalize_path (options s) (store (coord s)) raw) = None"
    using Cons.prems by (simp add: handle_None_iff)
  then have g: "gate_request (options s) (coord s) t rid raw (gate s) =
      (gate s)\<lparr>pending := pending (gate s) @
          [\<lparr>req_id = rid, req_key = normalize_path (options s) (store (coord s)) raw,
            registered_gen = generation (coord s),
            deadline = map_option (\<lambda>d. t + d) (request_timeout_opt (options s))\<rparr>]\<rparr>"
    by (rule gate_request_deferred)
  show ?case
    using Cons.IH [of "s\<lparr>gate := gate_request (options s) (coord s) t rid raw (gate s)\<rparr>"] Cons.prems
    by (simp add: q g)
qed

lemma resolve_after_build_end:
  assumes "watching c" and "bstate c = Compiling"
    and "on_build_end now errs mods arts c = (c', Some r)"
  shows "resolve c' k = NotFound404 \<or> response_gen (resolve c' k) = Some (generation c)"
  using assms
  by (cases "errs = []")
     (auto simp: on_build_end_def resolve_def serve_key_def response_gen_def split: option.split)

lemma exec_events_append:
  "exec_events s (xs @ ys) = exec_events (exec_events s xs) ys"
  by (induction xs arbitrary: s) auto

lemma exec_events_unchanged_coord:
  assumes "options s = opts" and "\<not> compiler_valid (compiler opts)"
    and "coord s = init_coordinator" and "results s = []"
  shows "coord (exec_events s evs) = init_coordinator \<and> results (exec_events s evs) = []"
  using assms
proof (induction evs arbitrary: s)
  case Nil
  then show ?case by simp
next
  case (Cons e evs)
  have nw: "\<not> watching (coord s)" using Cons.prems(3) by (simp add: init_coordinator_def)
  let ?t = "case plugin_step s e of Inl _ \<Rightarrow> s | Inr s' \<Rightarrow> s'"
  have "options ?t = opts \<and> coord ?t = init_coordinator \<and> results ?t = []"
    using Cons.prems nw
    by (cases e) (auto simp: start_def stop_def on_build_begin_def on_build_end_ignored
        init_coordinator_def)
  then show ?case using Cons.IH [of ?t] Cons.prems(2) by simp
qed

lemma subscribed_step:
  assumes "reach t" and "keeps_client cid e"
    and "cid \<in> set (clients (bridge t))"
    and "inbox (bridge t) cid = map message_of (drop n (results t))" and "n \<le> length (results t)"
    and "plugin_step t e = Inr t'"
  shows "cid \<in> set (clients (bridge t')) \<and>
         inbox (bridge t') cid = map message_of (drop n (results t')) \<and> n \<le> length (results t')"
proof -
  from reach_plugin_inv [OF assms(1)]
  have ci: "coord_inv (coord t) (results t)" and d: "distinct (clients (bridge t))"
    by (simp_all add: plugin_inv_def bridge_inv_def)
  show ?thesis
  proof (cases e)
    case (EvBuildEnd now errs mods arts broken)
    show ?thesis
    proof (cases "bstate (coord t) = Compiling")
      case True
      from build_end_step [OF ci True] assms(6) EvBuildEnd obtain r
        where "bridge t' = broadcast (message_of r) broken (bridge t)" "results t' = results t @ [r]"
        by blast
      with assms(2-5) d EvBuildEnd show ?thesis by (simp add: broadcast_distinct)
    next
      case False
      with assms(3-6) EvBuildEnd show ?thesis by (simp add: on_build_end_ignored)
    qed
  next
    case (EvSubscribe c)
    with assms(3-6) show ?thesis by (auto simp: subscribe_def)
  next
    case (EvUnsubscribe c)
    with assms(2-6) show ?thesis by (auto simp: unsubscribe_def)
  qed (use assms(3-6) in \<open>auto split: sum.splits\<close>)
qed

lemma subscribed_run:
  assumes "reach t" and "list_all (keeps_client cid) evs"
    and "cid \<in> set (clients (bridge t))"
    and "inbox (bridge t) cid = map message_of (drop n (results t))" and "n \<le> length (results t)"
  shows "cid \<in> set (clients (bridge (exec_events t evs))) \<and>
         inbox (bridge (exec_events t evs)) cid = map message_of (drop n (results (exec_events t evs)))"
  using assms
proof (induction evs arbitrary: t)
  case Nil
  then show ?case by simp
next
  case (Cons e evs)
  show ?case
  proof (cases "plugin_step t e")
    case (Inl err)
    with Cons show ?thesis by simp
  next
    case (Inr t')
    from Cons.prems(1) Inr have "reach t'" by (rule reach_step)
    moreover from subscribed_step [OF Cons.prems(1) _ Cons.prems(3-5) Inr] Cons.prems(2)
    have "cid \<in> set (clients (bridge t')) \<and>
          inbox (bridge t') cid = map message_of (drop n (results t')) \<and> n \<le> length (results t')"
      by simp
    ultimately show ?thesis using Cons.IH [of t'] Cons.prems(2) Inr by simp
  qed
qed

subsection \<open>The store and the build state\<close>

text \<open>
  C1: atomic swap.  In every reachable state of the registered plugin the
  Artifact Store holds exactly one complete generation: the artifact set of
  the most recent successful build result, under that build's generation, or
  the initial empty store when no build has succeeded yet; never a mix.
\<close>

theorem store_is_latest_success:
  assumes "reach s"
  shows "store (coord s) =
     (case last_success (results s) of
        None \<Rightarrow> empty_store
      | Some r \<Rightarrow> \<lparr>store_gen = res_gen r, store_files = artifacts_of (res_outcome r)\<rparr>)"
  using reach_plugin_inv [OF assms]
  by (simp add: plugin_inv_def coord_inv_def latest_store_def)

theorem store_is_latest_success_witness:
  "reach (exec_events (init_plugin demo_options) demo_trace) \<and>
   store (coord (exec_events (init_plugin demo_options) demo_trace)) =
     \<lparr>store_gen = 1, store_files = [(''/main.js'', demo_bundle)]\<rparr>"
proof -
  have r: "reach (exec_events (init_plugin demo_options) demo_trace)"
    by (rule reach_exec_init)
  from store_is_latest_success [OF r] r show ?thesis
    by (simp add: demo_defs plugin_defs is_success_def artifacts_of_def)
qed

text \<open>
  No observer sees \<open>Valid\<close> with an older artifact set: whenever the
  state is \<open>Valid\<close>, the last build result is a success of the current
  generation and the store is exactly its artifact set.
\<close>

theorem valid_store_is_current:
  assumes "reach s" and "bstate (coord s) = Valid"
  shows "results s \<noteq> [] \<and> res_gen (last (results s)) = generation (coord s) \<and>
         store_gen (store (coord s)) = generation (coord s) \<and>
         store (coord s) = \<lparr>store_gen = res_gen (last (results s)),
                             store_files = artifacts_of (res_outcome (last (results s)))\<rparr>"
  using reach_plugin_inv [OF assms(1)] assms(2)
  by (simp add: plugin_inv_def coord_inv_def latest_store_def last_success_last)

theorem valid_store_is_current_witness:
  "reach (exec_events (init_plugin demo_options) demo_trace) \<and>
   bstate (coord (exec_events (init_plugin demo_options) demo_trace)) = Valid \<and>
   get (store (coord (exec_events (init_plugin demo_options) demo_trace))) ''/main.js'' = Some demo_bundle"
proof -
  have r: "reach (exec_events (init_plugin demo_options) demo_trace)"
    by (rule reach_exec_init)
  have v: "bstate (coord (exec_events (init_plugin demo_options) demo_trace)) = Valid"
    by (simp add: demo_defs plugin_defs)
  from valid_store_is_current [OF r v] r v show ?thesis
    by (simp add: demo_defs plugin_defs artifacts_of_def)
qed

text \<open>
  Generation ids are strictly increasing: the build results the plugin
  fans out carry strictly increasing, hence distinct, generations, none beyond
  the coordinator's current generation.
\<close>

theorem results_strictly_increasing:
  assumes "reach s"
  shows "sorted_wrt (<) (map res_gen (results s)) \<and> distinct (map res_gen (results s)) \<and>
         (\<forall>r\<in>set (results s). res_gen r \<le> generation (coord s))"
  using reach_plugin_inv [OF assms]
  by (simp add: plugin_inv_def coord_inv_def sorted_wrt_less_distinct)

theorem results_strictly_increasing_witness:
  "reach (exec_events (init_plugin demo_options) demo_failing_trace) \<and>
   map res_gen (results (exec_events (init_plugin demo_options) demo_failing_trace)) = [1, 2]"
proof -
  have r: "reach (exec_events (init_plugin demo_options) demo_failing_trace)"
    by (rule reach_exec_init)
  from results_strictly_increasing [OF r] r show ?thesis
    by (simp add: demo_defs plugin_defs)
qed

subsection \<open>Live-reload clients\<close>

text \<open>
  What a live client has received is a suffix of the sequence of build
  results fanned out, one message per result: in increasing generation order,
  without duplicates and without gaps.
\<close>

theorem client_inbox_suffix:
  assumes "reach s" and "c \<in> set (clients (bridge s))"
  shows "suffix (inbox (bridge s) c) (map message_of (results s)) \<and>
         sorted_wrt (<) (map msg_gen (inbox (bridge s) c))"
proof -
  from reach_plugin_inv [OF assms(1)] assms(2)
  have suf: "suffix (inbox (bridge s) c) (map message_of (results s))"
    and sorted: "sorted_wrt (<) (map res_gen (results s))"
    by (auto simp: plugin_inv_def bridge_inv_def coord_inv_def)
  have "suffix (map msg_gen (inbox (bridge s) c)) (map msg_gen (map message_of (results s)))"
    by (rule map_mono_suffix [OF suf])
  then have "suffix (map msg_gen (inbox (bridge s) c)) (map res_gen (results s))"
    by (simp add: comp_def)
  with sorted suf show ?thesis by (blast intro: suffix_sorted_wrt)
qed

theorem client_inbox_suffix_witness:
  "reach (exec_events (init_plugin demo_options) demo_failing_trace) \<and>
   (1::nat) \<in> set (clients (bridge (exec_events (init_plugin demo_options) demo_failing_trace))) \<and>
   map msg_gen (inbox (bridge (exec_events (init_plugin demo_options) demo_failing_trace)) 1) = [1, 2] \<and>
   map msg_gen (inbox (bridge (exec_events (init_plugin demo_options) demo_failing_trace)) 2) = [2]"
proof -
  have r: "reach (exec_events (init_plugin demo_options) demo_failing_trace)"
    by (rule reach_exec_init)
  have c: "(1::nat) \<in> set (clients (bridge (exec_events (init_plugin demo_options) demo_failing_trace)))"
    by (simp add: demo_defs plugin_defs)
  from client_inbox_suffix [OF r c] r c show ?thesis
    by (simp add: demo_defs plugin_defs)
qed

text \<open>
  C4: no backlog, no gap, no duplicate.  A client that subscribes to a
  reachable plugin and stays subscribed (it neither unsubscribes nor fails a
  delivery) has received, after any further events, exactly the messages of the
  build results fanned out since it subscribed, in order.
\<close>

theorem subscribe_receives_exactly_later_results:
  assumes "reach s" and "cid \<notin> set (clients (bridge s))"
    and "list_all (keeps_client cid) evs"
  shows "cid \<in> set (clients (bridge (exec_events s (EvSubscribe cid # evs)))) \<and>
         inbox (bridge (exec_events s (EvSubscribe cid # evs))) cid =
           map message_of (drop (length (results s)) (results (exec_events s (EvSubscribe cid # evs))))"
proof -
  let ?t = "s\<lparr>bridge := subscribe cid (bridge s)\<rparr>"
  have st: "plugin_step s (EvSubscribe cid) = Inr ?t" by simp
  from assms(1) st have r: "reach ?t" by (rule reach_step)
  have "cid \<in> set (clients (bridge ?t))" and "inbox (bridge ?t) cid = map message_of (drop (length (results s)) (results ?t))"
    using assms(2) by (simp_all add: subscribe_def)
  from subscribed_run [OF r assms(3) this] show ?thesis by simp
qed

theorem subscribe_receives_exactly_later_results_witness:
  "reach (exec_events (init_plugin demo_options) demo_trace) \<and>
   (2::nat) \<notin> set (clients (bridge (exec_events (init_plugin demo_options) demo_trace))) \<and>
   list_all (keeps_client 2) [EvBuildBegin, demo_failure] \<and>
   inbox (bridge (exec_events (exec_events (init_plugin demo_options) demo_trace)
      [EvSubscribe 2, EvBuildBegin, demo_failure])) 2 = [MsgError 2 [demo_error]]"
proof -
  have r: "reach (exec_events (init_plugin demo_options) demo_trace)" by (rule reach_exec_init)
  have n: "(2::nat) \<notin> set (clients (bridge (exec_events (init_plugin demo_options) demo_trace)))"
    by (simp add: demo_defs plugin_defs)
  have k: "list_all (keeps_client 2) [EvBuildBegin, demo_failure]" by (simp add: demo_failure_def)
  from subscribe_receives_exactly_later_results [OF r n k] r n k show ?thesis
    by (simp add: demo_defs plugin_defs)
qed

text \<open>
  The plugin's broadcast refines the contract of the Update Bridge: when
  a build completes, every subscriber whose delivery works gets the message of
  the new result appended, every failing one is unsubscribed, and nothing else
  changes; a build-end signal outside a compile changes nothing at all.
\<close>

theorem broadcast_refines_spec:
  assumes "reach s" and "plugin_step s (EvBuildEnd now errs mods arts broken) = Inr s'"
  shows "(bstate (coord s) = Compiling \<longrightarrow>
            (\<exists>r. results s' = results s @ [r] \<and> res_gen r = generation (coord s) \<and>
                 bridge s' = broadcast_spec (message_of r) broken (bridge s))) \<and>
         (bstate (coord s) \<noteq> Compiling \<longrightarrow> s' = s)"
proof -
  from reach_plugin_inv [OF assms(1)]
  have ci: "coord_inv (coord s) (results s)" and d: "distinct (clients (bridge s))"
    by (simp_all add: plugin_inv_def bridge_inv_def)
  show ?thesis
  proof (cases "bstate (coord s) = Compiling")
    case True
    from build_end_step [OF ci True assms(2)] d True show ?thesis
      by (auto simp: broadcast_eq_spec)
  next
    case False
    with build_end_not_compiling [OF False assms(2)] show ?thesis by simp
  qed
qed

theorem broadcast_refines_spec_witness:
  "reach (exec_events (init_plugin demo_options) demo_held_trace) \<and>
   plugin_step (exec_events (init_plugin demo_options) demo_held_trace) demo_success =
     Inr (exec_events (init_plugin demo_options) demo_trace) \<and>
   bridge (exec_events (init_plugin demo_options) demo_trace) =
     broadcast_spec (MsgOk 1 [''./app/main.ts''] [(''/main.js'', ''a1'')]) []
       (bridge (exec_events (init_plugin demo_options) demo_held_trace))"
proof -
  have r: "reach (exec_events (init_plugin demo_options) demo_held_trace)" by (rule reach_exec_init)
  have st: "plugin_step (exec_events (init_plugin demo_options) demo_held_trace) demo_success =
      Inr (exec_events (init_plugin demo_options) demo_trace)"
    by (simp add: demo_defs plugin_defs)
  from broadcast_refines_spec [OF r st [unfolded demo_success_def]] r st show ?thesis
    by (simp add: demo_defs plugin_defs changed_modules_def)
qed

subsection \<open>Held requests and failed builds\<close>

text \<open>
  C2: held requests are answered by the first build that completes after they
  were registered, in registration order.  From a reachable state compiling
  under the hold policy, any run of requests followed by the build end of the
  compile in flight empties the wait queue and appends exactly one answer per
  held request: first those already waiting, in queue order, then the new ones
  in the order they arrived, each resolved against the state the build has
  just produced.  That generation is newer than every earlier result and not
  older than any request's registration, and every answer carries it (or is a
  404 of that store).
\<close>

theorem build_end_releases_held:
  assumes "reach s" and "bstate (coord s) = Compiling" and "policy_of (options s) = Hold"
    and "plugin_step (exec_events s (map (\<lambda>(t, rid, raw). EvRequest t rid raw) rqs))
           (EvBuildEnd now errs mods arts broken) = Inr s'"
  shows "pending (gate s') = [] \<and>
         responses (gate s') = responses (gate s) @
           map (\<lambda>p. (req_id p, resolve (coord s') (req_key p))) (pending (gate s)) @
           map (\<lambda>(t, rid, raw). (rid, resolve (coord s') (normalize_path (options s) (store (coord s)) raw))) rqs \<and>
         results s' \<noteq> [] \<and> res_gen (last (results s')) = generation (coord s) \<and>
         (\<forall>r\<in>set (results s). res_gen r < generation (coord s)) \<and>
         (\<forall>p\<in>set (pending (gate s)). registered_gen p \<le> generation (coord s)) \<and>
         (\<forall>a\<in>snd ` set (drop (length (responses (gate s))) (responses (gate s'))).
            a = NotFound404 \<or> response_gen a = Some (generation (coord s)))"
proof -
  let ?s1 = "exec_events s (map (\<lambda>(t, rid, raw). EvRequest t rid raw) rqs)"
  have s1: "coord ?s1 = coord s" "results ?s1 = results s" "options ?s1 = options s"
    "responses (gate ?s1) = responses (gate s)"
    "pending (gate ?s1) = pending (gate s) @
        map (\<lambda>(t, rid, raw). \<lparr>req_id = rid, req_key = normalize_path (options s) (store (coord s)) raw,
              registered_gen = generation (coord s),
              deadline = map_option (\<lambda>d. t + d) (request_timeout_opt (options s))\<rparr>) rqs"
    by (simp_all add: exec_held_requests [OF assms(2,3)])
  from reach_plugin_inv [OF reach_exec_events [OF assms(1)]]
  have ci1: "coord_inv (coord ?s1) (results ?s1)" by (simp add: plugin_inv_def)
  from reach_plugin_inv [OF assms(1)]
  have ci: "coord_inv (coord s) (results s)" and gi: "gate_inv (coord s) (results s) (gate s)"
    by (simp_all add: plugin_inv_def)
  from build_end_step [OF ci1 _ assms(4)] assms(2) s1(1,2) obtain r
    where e: "on_build_end now errs mods arts (coord s) = (coord s', Some r)"
      and g: "res_gen r = generation (coord s)"
      and s': "gate s' = release_pending (coord s') (gate ?s1)" "results s' = results s @ [r]"
    by auto
  from ci assms(2) have w: "watching (coord s)"
    and lt: "\<forall>x\<in>set (results s). res_gen x < generation (coord s)"
    by (simp_all add: coord_inv_def)
  have rk: "\<And>k. resolve (coord s') k = NotFound404 \<or>
          response_gen (resolve (coord s') k) = Some (generation (coord s))"
    using resolve_after_build_end [OF w assms(2) e] by blast
  from gi have "\<forall>p\<in>set (pending (gate s)). registered_gen p \<le> generation (coord s)"
    by (simp add: gate_inv_def)
  moreover have resp: "responses (gate s') = responses (gate s) @
      map (\<lambda>p. (req_id p, resolve (coord s') (req_key p))) (pending (gate s)) @
      map (\<lambda>(t, rid, raw). (rid, resolve (coord s') (normalize_path (options s) (store (coord s)) raw))) rqs"
    using s'(1) s1 by (simp add: release_pending_def comp_def case_prod_unfold)
  moreover have "\<forall>a\<in>snd ` set (drop (length (responses (gate s))) (responses (gate s'))).
      a = NotFound404 \<or> response_gen a = Some (generation (coord s))"
    by (auto simp: resp) (meson rk)+
  ultimately show ?thesis
    using lt g s' s1 by (simp add: release_pending_def)
qed

theorem build_end_releases_held_witness:
  "reach (exec_events (init_plugin demo_options) [EvStart]) \<and>
   bstate (coord (exec_events (init_plugin demo_options) [EvStart])) = Compiling \<and>
   policy_of (options (exec_events (init_plugin demo_options) [EvStart])) = Hold \<and>
   plugin_step (exec_events (exec_events (init_plugin demo_options) [EvStart])
       (map (\<lambda>(t, rid, raw). EvRequest t rid raw) demo_requests)) demo_success =
     Inr (exec_events (init_plugin demo_options)
       (EvStart # map (\<lambda>(t, rid, raw). EvRequest t rid raw) demo_requests @ [demo_success])) \<and>
   responses (gate (exec_events (init_plugin demo_options)
       (EvStart # map (\<lambda>(t, rid, raw). EvRequest t rid raw) demo_requests @ [demo_success]))) =
     [(7, Ok200 ''console.log(1)'' ''application/javascript'' ''a1'' 1), (8, NotFound404)]"
proof -
  let ?s = "exec_events (init_plugin demo_options) [EvStart]"
  have r: "reach ?s" by (rule reach_exec_init)
  have c: "bstate (coord ?s) = Compiling" and h: "policy_of (options ?s) = Hold"
    by (simp_all add: plugin_defs)
  have st: "plugin_step (exec_events ?s (map (\<lambda>(t, rid, raw). EvRequest t rid raw) demo_requests))
        demo_success =
      Inr (exec_events (init_plugin demo_options)
        (EvStart # map (\<lambda>(t, rid, raw). EvRequest t rid raw) demo_requests @ [demo_success]))"
    by (simp add: demo_requests_def demo_defs plugin_defs)
  from build_end_releases_held [OF r c h st [unfolded demo_success_def]] r c h st show ?thesis
    by (simp add: demo_requests_def demo_defs plugin_defs)
qed

text \<open>
  C5: a failed build's diagnostics are surfaced, not thrown: after the build
  end of a compile that reports errors, every request (whatever its path) is
  answered with those exact diagnostics stamped with the compiled generation,
  every subscriber whose delivery works receives the error message with them,
  and the store keeps the last good generation.
\<close>

theorem error_surfaced_everywhere:
  assumes "reach s" and "bstate (coord s) = Compiling" and "errs \<noteq> []"
    and "plugin_step s (EvBuildEnd now errs mods arts broken) = Inr s'"
  shows "(\<forall>k. handle (options s') (coord s') k = Some (BuildError (generation (coord s)) errs)) \<and>
         store (coord s') = store (coord s) \<and>
         (\<forall>c\<in>set (clients (bridge s)). c \<notin> set broken \<longrightarrow>
            inbox (bridge s') c = inbox (bridge s) c @ [MsgError (generation (coord s)) errs])"
proof -
  from reach_plugin_inv [OF assms(1)]
  have ci: "coord_inv (coord s) (results s)" and bi: "bridge_inv (results s) (bridge s)"
    by (simp_all add: plugin_inv_def)
  from build_end_step [OF ci assms(2,4)] obtain r
    where e: "on_build_end now errs mods arts (coord s) = (coord s', Some r)"
      and s': "bridge s' = broadcast (message_of r) broken (bridge s)"
    by blast
  from ci assms(2) have w: "watching (coord s)" by (simp add: coord_inv_def)
  with assms(2,3) e have c': "coord s' = (coord s)\<lparr>bstate := Invalid, diagnostics := (generation (coord s), errs)\<rparr>"
    and r: "r = \<lparr>res_gen = generation (coord s), res_outcome = Failure errs, res_time = now\<rparr>"
    by (auto simp: on_build_end_def)
  from bi have "distinct (clients (bridge s))" by (simp add: bridge_inv_def)
  with c' r s' show ?thesis
    by (simp add: broadcast_distinct handle_def resolve_def message_of_def)
qed

theorem error_surfaced_everywhere_witness:
  "reach (exec_events (init_plugin demo_options) (demo_trace @ [EvBuildBegin])) \<and>
   bstate (coord (exec_events (init_plugin demo_options) (demo_trace @ [EvBuildBegin]))) = Compiling \<and>
   [demo_error] \<noteq> [] \<and>
   plugin_step (exec_events (init_plugin demo_options) (demo_trace @ [EvBuildBegin])) demo_failure =
     Inr (exec_events (init_plugin demo_options) (demo_trace @ [EvBuildBegin, demo_failure])) \<and>
   inbox (bridge (exec_events (init_plugin demo_options) (demo_trace @ [EvBuildBegin, demo_failure]))) 1 =
     [MsgOk 1 [''./app/main.ts''] [(''/main.js'', ''a1'')], MsgError 2 [demo_error]]"
proof -
  let ?s = "exec_events (init_plugin demo_options) (demo_trace @ [EvBuildBegin])"
  let ?s' = "exec_events (init_plugin demo_options) (demo_trace @ [EvBuildBegin, demo_failure])"
  have r: "reach ?s" by (rule reach_exec_init)
  have c: "bstate (coord ?s) = Compiling"
    by (simp add: demo_defs plugin_defs)
  have ne: "[demo_error] \<noteq> []" by simp
  have st: "plugin_step ?s demo_failure = Inr ?s'"
    by (simp add: demo_defs plugin_defs)
  from error_surfaced_everywhere [OF r c ne st [unfolded demo_failure_def]] r c st show ?thesis
    by (simp add: demo_defs plugin_defs changed_modules_def)
qed

subsection \<open>Starting and stopping\<close>

text \<open>
  \<open>stop()\<close> is idempotent in every run of the registered plugin:
  stopping twice leaves the same state as stopping once, and the compiler's
  resources are released at most once, only when watch mode was running.
\<close>

theorem stop_twice_is_stop_once:
  "exec_events (init_plugin opts) (evs @ [EvStop, EvStop]) =
     exec_events (init_plugin opts) (evs @ [EvStop]) \<and>
   releases (coord (exec_events (init_plugin opts) (evs @ [EvStop]))) =
     releases (coord (exec_events (init_plugin opts) evs)) +
       (if watching (coord (exec_events (init_plugin opts) evs)) then 1 else 0)"
  using stop_idempotent [of "coord (exec_events (init_plugin opts) evs)"]
  by (simp add: exec_events_append)

text \<open>
  A plugin registered with a compiler whose configuration webpack
  rejects fails to start with \<open>CompilerStartError\<close>, and whatever happens
  afterwards its coordinator stays idle: no build begins, no result is fanned
  out and the store stays empty.
\<close>

theorem invalid_compiler_never_starts:
  assumes "\<not> compiler_valid (compiler opts)"
  shows "plugin_step (init_plugin opts) EvStart = Inl CompilerStartError \<and>
         coord (exec_events (init_plugin opts) evs) = init_coordinator \<and>
         results (exec_events (init_plugin opts) evs) = []"
proof -
  have "plugin_step (init_plugin opts) EvStart = Inl CompilerStartError"
    using assms by (simp add: init_plugin_def start_def)
  moreover have "coord (exec_events (init_plugin opts) evs) = init_coordinator \<and>
                 results (exec_events (init_plugin opts) evs) = []"
    by (rule exec_events_unchanged_coord) (use assms in \<open>simp_all add: init_plugin_def\<close>)
  ultimately show ?thesis by blast
qed

theorem invalid_compiler_never_starts_witness:
  "\<not> compiler_valid (compiler (demo_options\<lparr>compiler := (example_config ''/r'')\<lparr>entry := []\<rparr>\<rparr>)) \<and>
   plugin_step (init_plugin (demo_options\<lparr>compiler := (example_config ''/r'')\<lparr>entry := []\<rparr>\<rparr>)) EvStart =
     Inl CompilerStartError \<and>
   results (exec_events (init_plugin (demo_options\<lparr>compiler := (example_config ''/r'')\<lparr>entry := []\<rparr>\<rparr>))
     demo_trace) = []"
proof -
  have nv: "\<not> compiler_valid (compiler (demo_options\<lparr>compiler := (example_config ''/r'')\<lparr>entry := []\<rparr>\<rparr>))"
    by (simp add: compiler_valid_def)
  from invalid_compiler_never_starts [OF nv, of demo_trace] nv show ?thesis by simp
qed

end
